theory Spec2Isabelle
  imports Main "HOL-Library.AList" "HOL-Library.Log_Nat"
begin

section \<open>Python strings\<close>

text \<open>
  A Python \<open>str\<close> is modelled as a \<open>string\<close> whose characters are the code points
  below 256. The functions of this section are the \<open>str\<close> methods that
  \<open>geometry_extractor.py\<close> calls, each with the behaviour CPython gives it on such
  strings. Code points from 128 on have no case mapping here (none of them maps to a
  letter of the two header keywords the source searches for).
\<close>

definition isspace :: "char \<Rightarrow> bool" where
  "isspace c = (c \<in> set [CHR 0x09, CHR 0x0A, CHR 0x0B, CHR 0x0C, CHR 0x0D,
     CHR 0x1C, CHR 0x1D, CHR 0x1E, CHR 0x1F, CHR 0x20, CHR 0x85, CHR 0xA0])"

definition isdigit :: "char \<Rightarrow> bool" where
  "isdigit c = (c \<in> set ''0123456789'')"

text \<open>\<open>s.strip()\<close> and \<open>s.strip(chars)\<close> for a one-character \<open>chars\<close>.\<close>

definition strip_with :: "(char \<Rightarrow> bool) \<Rightarrow> string \<Rightarrow> string" where
  "strip_with P s = rev (dropWhile P (rev (dropWhile P s)))"

definition strip :: "string \<Rightarrow> string" where
  "strip s = strip_with isspace s"

definition strip_char :: "char \<Rightarrow> string \<Rightarrow> string" where
  "strip_char q s = strip_with (\<lambda>c. c = q) s"

text \<open>\<open>s.startswith(p)\<close>, \<open>s.endswith(p)\<close> and \<open>sub in s\<close>.\<close>

fun startswith :: "string \<Rightarrow> string \<Rightarrow> bool" where
  "startswith s [] = True"
| "startswith [] (p # ps) = False"
| "startswith (c # s) (p # ps) = (c = p \<and> startswith s ps)"

definition endswith :: "string \<Rightarrow> string \<Rightarrow> bool" where
  "endswith s p = startswith (rev s) (rev p)"

fun str_in :: "string \<Rightarrow> string \<Rightarrow> bool" where
  "str_in sub [] = (sub = [])"
| "str_in sub (c # s) = (startswith (c # s) sub \<or> str_in sub s)"

text \<open>
  \<open>s.split(sep)\<close> for a one-character separator and \<open>re.split(r'[!\-]', s)\<close>: the
  string is cut at every character satisfying \<open>P\<close>. The list Python returns is never
  empty; it is given as its first element and the list of the others, so that
  \<open>parts[0]\<close> is the first component.
\<close>

fun split_on :: "(char \<Rightarrow> bool) \<Rightarrow> string \<Rightarrow> string \<times> string list" where
  "split_on P [] = ([], [])"
| "split_on P (c # cs) =
     (case split_on P cs of
        (w, ws) \<Rightarrow> if P c then ([], w # ws) else (c # w, ws))"

definition split_lines :: "string \<Rightarrow> string list" where
  "split_lines content = (case split_on (\<lambda>c. c = CHR 0x0A) content of (l, ls) \<Rightarrow> l # ls)"

text \<open>\<open>s.split()\<close>: the maximal runs of non-whitespace characters, in order.\<close>

fun split_ws_from :: "string \<Rightarrow> string \<Rightarrow> string list" where
  "split_ws_from cur [] = (if cur = [] then [] else [rev cur])"
| "split_ws_from cur (c # cs) =
     (if isspace c then (if cur = [] then split_ws_from [] cs else rev cur # split_ws_from [] cs)
      else split_ws_from (c # cur) cs)"

definition split_ws :: "string \<Rightarrow> string list" where
  "split_ws s = split_ws_from [] s"

text \<open>\<open>s.upper()\<close> and \<open>s.lower()\<close>.\<close>

definition upper_char :: "char \<Rightarrow> char" where
  "upper_char c =
     (let n = (of_char c :: nat) in if 97 \<le> n \<and> n \<le> 122 then char_of (n - 32) else c)"

definition lower_char :: "char \<Rightarrow> char" where
  "lower_char c =
     (let n = (of_char c :: nat) in if 65 \<le> n \<and> n \<le> 90 then char_of (n + 32) else c)"

definition upper :: "string \<Rightarrow> string" where
  "upper s = map upper_char s"

definition lower :: "string \<Rightarrow> string" where
  "lower s = map lower_char s"

text \<open>
  \<open>os.path.basename(p)\<close> of \<open>posixpath\<close> (the module runs under Pyodide): everything
  after the last \<open>/\<close>.
\<close>

definition basename :: "string \<Rightarrow> string" where
  "basename p = rev (takeWhile (\<lambda>c. c \<noteq> CHR ''/'') (rev p))"

section \<open>Python numbers\<close>

subsection \<open>Reading digits\<close>

text \<open>
  \<open>int(s)\<close> and \<open>float(s)\<close> accept single underscores between two digits and nowhere
  else; the underscores are removed before the number is read.
\<close>

fun drop_underscores :: "char option \<Rightarrow> string \<Rightarrow> string option" where
  "drop_underscores prev [] = Some []"
| "drop_underscores prev (c # cs) =
     (if c = CHR ''_'' then
        (case (prev, cs) of
           (Some p, n # _) \<Rightarrow> if isdigit p \<and> isdigit n then drop_underscores (Some c) cs else None
         | _ \<Rightarrow> None)
      else map_option ((#) c) (drop_underscores (Some c) cs))"

definition digits_val :: "string \<Rightarrow> int" where
  "digits_val s = foldl (\<lambda>a c. 10 * a + (of_char c - 48)) 0 s"

text \<open>\<open>len(s)\<close> as an integer.\<close>

definition ilength :: "'a list \<Rightarrow> int" where
  "ilength xs = foldr (\<lambda>x n. n + 1) xs 0"

definition all_digits :: "string \<Rightarrow> bool" where
  "all_digits s = (s \<noteq> [] \<and> list_all isdigit s)"

text \<open>An optional sign in front of a number: \<open>(negative, rest)\<close>.\<close>

definition split_sign :: "string \<Rightarrow> bool \<times> string" where
  "split_sign s =
     (case s of
        [] \<Rightarrow> (False, [])
      | c # r \<Rightarrow> if c = CHR ''-'' then (True, r) else if c = CHR ''+'' then (False, r) else (False, s))"

text \<open>
  \<open>int(s)\<close> in base 10 for a string without whitespace, \<open>None\<close> where Python raises
  \<open>ValueError\<close>: an optional sign and digits. The source passes a token of \<open>split()\<close>
  with quotes removed, which contains no whitespace (Python itself would ignore
  whitespace around the number). The interpreter's configurable limit on the number of
  digits is not modelled.
\<close>

definition py_int :: "string \<Rightarrow> int option" where
  "py_int s =
     (case drop_underscores None s of
        None \<Rightarrow> None
      | Some t \<Rightarrow>
          (case split_sign t of
             (neg, body) \<Rightarrow>
               if all_digits body
               then Some (if neg then - digits_val body else digits_val body)
               else None))"

subsection \<open>Binary64 floats\<close>

text \<open>
  A Python \<open>float\<close> is an IEEE 754 binary64 value: a finite value is kept as the rational
  it denotes (\<open>Fin 0\<close> is \<open>+0.0\<close>, \<open>NegZero\<close> is \<open>-0.0\<close>), and every operation rounds its
  exact result to the nearest representable value, ties to even.
\<close>

datatype pyfloat = Fin rat | NegZero | PInf | NInf | NaN

definition pow2 :: "int \<Rightarrow> rat" where
  "pow2 k = (if 0 \<le> k then 2 ^ nat k else 1 / 2 ^ nat (- k))"

definition pow10 :: "int \<Rightarrow> rat" where
  "pow10 k = (if 0 \<le> k then 10 ^ nat k else 1 / 10 ^ nat (- k))"

text \<open>
  \<open>ndigits b n\<close> is the number of digits of \<open>n > 0\<close> in base \<open>b\<close>, and \<open>ilog b r\<close>
  the integer \<open>e\<close> with \<open>b ^ e \<le> r < b ^ (e + 1)\<close>, for \<open>r > 0\<close>: with \<open>r = p / q\<close>
  it is the difference \<open>d\<close> of the digit counts of \<open>p\<close> and \<open>q\<close>, or \<open>d - 1\<close>.
\<close>

function ndigits :: "int \<Rightarrow> int \<Rightarrow> int" where
  "ndigits b n = (if 0 < n \<and> 1 < b then ndigits b (n div b) + 1 else 0)"
  by pat_completeness auto
termination
  by (relation "measure (\<lambda>(b, n). nat n)") (auto simp: int_div_less_self pos_imp_zdiv_nonneg_iff intro!: zless_nat_conj[THEN iffD2])

definition ilog :: "int \<Rightarrow> rat \<Rightarrow> int" where
  "ilog b r =
     (case quotient_of r of
        (p, q) \<Rightarrow>
          (let d = ndigits b p - ndigits b q;
               bd = (if 0 \<le> d then of_int b ^ nat d else 1 / of_int b ^ nat (- d))
           in if bd \<le> r then d else d - 1))"

definition round_half_even :: "rat \<Rightarrow> int" where
  "round_half_even x =
     (let f = \<lfloor>x\<rfloor>; d = x - of_int f
      in if d < 1 / 2 then f else if 1 / 2 < d then f + 1 else if even f then f else f + 1)"

text \<open>
  Rounding a positive rational: 53 significant bits, exponents from \<open>-1022\<close> (below it
  the spacing stays \<open>2 ^ -1074\<close>), \<open>None\<close> on overflow. The rounded value is
  \<open>m * 2 ^ k\<close> with \<open>m \<le> 2 ^ 53 = 9007199254740992\<close>; it reaches \<open>2 ^ 1024\<close>, the
  overflow threshold, exactly when \<open>k > 971\<close>, or \<open>k = 971\<close> and \<open>m = 2 ^ 53\<close>.
\<close>

definition round_pos :: "rat \<Rightarrow> rat option" where
  "round_pos r =
     (let k = max (ilog 2 r) (- 1022) - 52;
          m = round_half_even (r / pow2 k)
      in if 971 < k \<or> (k = 971 \<and> m = 9007199254740992) then None
         else Some (of_int m * pow2 k))"

definition fl :: "rat \<Rightarrow> pyfloat" where
  "fl r =
     (if r = 0 then Fin 0
      else if 0 < r then (case round_pos r of None \<Rightarrow> PInf | Some v \<Rightarrow> Fin v)
      else (case round_pos (- r) of
              None \<Rightarrow> NInf
            | Some v \<Rightarrow> if v = 0 then NegZero else Fin (- v)))"

text \<open>
  \<open>float(s)\<close> for a string without whitespace (as for \<open>int\<close>, the source passes
  tokens only), \<open>None\<close> where Python raises \<open>ValueError\<close>: an optional sign, then
  \<open>inf\<close>, \<open>infinity\<close> or \<open>nan\<close> in any case, or decimal digits with an optional point and
  an optional exponent. The result is correctly rounded.
\<close>

definition parse_exponent :: "string \<Rightarrow> int option" where
  "parse_exponent s =
     (case s of
        [] \<Rightarrow> Some 0
      | c # r \<Rightarrow>
          if c = CHR ''e'' \<or> c = CHR ''E'' then
            (case split_sign r of
               (neg, ds) \<Rightarrow>
                 if all_digits ds
                 then Some (if neg then - digits_val ds else digits_val ds)
                 else None)
          else None)"

definition parse_decimal :: "string \<Rightarrow> rat option" where
  "parse_decimal s =
     (let ip = takeWhile isdigit s; r1 = dropWhile isdigit s;
          fp = (case r1 of [] \<Rightarrow> [] | c # r \<Rightarrow> if c = CHR ''.'' then takeWhile isdigit r else []);
          r2 = (case r1 of [] \<Rightarrow> [] | c # r \<Rightarrow> if c = CHR ''.'' then dropWhile isdigit r else r1)
      in if ip = [] \<and> fp = [] then None
         else (case parse_exponent r2 of
                 None \<Rightarrow> None
               | Some e \<Rightarrow> Some (of_int (digits_val (ip @ fp)) * pow10 (e - ilength fp))))"

definition py_float :: "string \<Rightarrow> pyfloat option" where
  "py_float s =
     (case drop_underscores None s of
        None \<Rightarrow> None
      | Some t \<Rightarrow>
          (case split_sign t of
             (neg, body) \<Rightarrow>
               if lower body = ''inf'' \<or> lower body = ''infinity''
               then Some (if neg then NInf else PInf)
               else if lower body = ''nan'' then Some NaN
               else (case parse_decimal body of
                       None \<Rightarrow> None
                     | Some r \<Rightarrow> Some (if r = 0 then (if neg then NegZero else Fin 0)
                                        else fl (if neg then - r else r)))))"

text \<open>Truth value of a float (\<open>if x:\<close>): false exactly for the two zeros.\<close>

definition float_truthy :: "pyfloat \<Rightarrow> bool" where
  "float_truthy x = (x \<noteq> Fin 0 \<and> x \<noteq> NegZero)"

text \<open>\<open>x + y\<close> and \<open>x * y\<close> on floats.\<close>

fun float_add :: "pyfloat \<Rightarrow> pyfloat \<Rightarrow> pyfloat" where
  "float_add NaN y = NaN"
| "float_add x NaN = NaN"
| "float_add PInf NInf = NaN"
| "float_add NInf PInf = NaN"
| "float_add PInf y = PInf"
| "float_add x PInf = PInf"
| "float_add NInf y = NInf"
| "float_add x NInf = NInf"
| "float_add NegZero y = y"
| "float_add x NegZero = x"
| "float_add (Fin a) (Fin b) = fl (a + b)"

definition is_zero :: "pyfloat \<Rightarrow> bool" where
  "is_zero x = (x = Fin 0 \<or> x = NegZero)"

definition is_inf :: "pyfloat \<Rightarrow> bool" where
  "is_inf x = (x = PInf \<or> x = NInf)"

definition sign_bit :: "pyfloat \<Rightarrow> bool" where
  "sign_bit x = (case x of Fin r \<Rightarrow> r < 0 | NegZero \<Rightarrow> True | NInf \<Rightarrow> True | _ \<Rightarrow> False)"

definition float_mul :: "pyfloat \<Rightarrow> pyfloat \<Rightarrow> pyfloat" where
  "float_mul x y =
     (if x = NaN \<or> y = NaN then NaN
      else if (is_inf x \<and> is_zero y) \<or> (is_zero x \<and> is_inf y) then NaN
      else if is_inf x \<or> is_inf y then (if sign_bit x \<noteq> sign_bit y then NInf else PInf)
      else if is_zero x \<or> is_zero y then (if sign_bit x \<noteq> sign_bit y then NegZero else Fin 0)
      else (case (x, y) of
              (Fin a, Fin b) \<Rightarrow>
                (case fl (a * b) of
                   Fin v \<Rightarrow> if v = 0 \<and> sign_bit x \<noteq> sign_bit y then NegZero else Fin v
                 | z \<Rightarrow> z)
            | _ \<Rightarrow> NaN))"

text \<open>The chained comparison \<open>0 <= x <= 1\<close> of an \<open>int\<close> with a float.\<close>

definition in_unit_interval :: "pyfloat \<Rightarrow> bool" where
  "in_unit_interval x = (case x of Fin r \<Rightarrow> 0 \<le> r \<and> r \<le> 1 | NegZero \<Rightarrow> True | _ \<Rightarrow> False)"

subsection \<open>Numbers as text\<close>

text \<open>\<open>str(n)\<close> for a non-negative \<open>int\<close>.\<close>

definition digit_char :: "nat \<Rightarrow> char" where
  "digit_char d = char_of (48 + d)"

function str_nat :: "nat \<Rightarrow> string" where
  "str_nat n = (if n < 10 then [digit_char n] else str_nat (n div 10) @ [digit_char (n mod 10)])"
  by pat_completeness auto
termination
  by (relation "measure id") auto

text \<open>
  \<open>repr(x)\<close> of a float, which is also what an f-string writes for it: the shortest
  decimal digit string that \<open>float\<close> reads back as \<open>x\<close> (the closest to \<open>x\<close> when there
  are several), written positionally when the decimal point position \<open>decpt\<close> satisfies
  \<open>-4 < decpt \<le> 16\<close> and with an exponent otherwise.

  \<open>candidate n r\<close> is the best \<open>n\<close>-digit decimal \<open>d * 10 ^ s\<close> for \<open>r > 0\<close>, if one of the
  two \<open>n\<close>-digit neighbours of \<open>r\<close> rounds to \<open>r\<close>.
\<close>

definition candidate :: "int \<Rightarrow> rat \<Rightarrow> (int \<times> int) option" where
  "candidate n r =
     (let s = ilog 10 r - n + 1;
          lo = \<lfloor>r / pow10 s\<rfloor>;
          lo_ok = (fl (of_int lo * pow10 s) = Fin r);
          hi_ok = (fl (of_int (lo + 1) * pow10 s) = Fin r);
          dl = r - of_int lo * pow10 s;
          dh = of_int (lo + 1) * pow10 s - r
      in if lo_ok \<and> hi_ok then
           Some (if dl < dh then lo else if dh < dl then lo + 1 else if even lo then lo else lo + 1, s)
         else if lo_ok then Some (lo, s)
         else if hi_ok then Some (lo + 1, s)
         else None)"

text \<open>
  The digit counts from \<open>n\<close> on are tried in turn, \<open>fuel\<close> of them; 17 digits always
  suffice, so after the counts 1 to 16 the value rounded to 17 digits is taken.
\<close>

fun shortest :: "nat \<Rightarrow> int \<Rightarrow> rat \<Rightarrow> int \<times> int" where
  "shortest 0 n r = (round_half_even (r / pow10 (ilog 10 r - n + 1)), ilog 10 r - n + 1)"
| "shortest (Suc fuel) n r =
     (case candidate n r of Some d \<Rightarrow> d | None \<Rightarrow> shortest fuel (n + 1) r)"

definition strip_zeros :: "string \<Rightarrow> string" where
  "strip_zeros ds = rev (dropWhile (\<lambda>c. c = CHR ''0'') (rev ds))"

definition str_exponent :: "int \<Rightarrow> string" where
  "str_exponent e =
     (if e < 0 then ''-'' else ''+'') @
     (if \<bar>e\<bar> < 10 then ''0'' else []) @ str_nat (nat \<bar>e\<bar>)"

definition format_digits :: "string \<Rightarrow> int \<Rightarrow> string" where
  "format_digits ds decpt =
     (if decpt \<le> - 4 \<or> 16 < decpt then
        take 1 ds @ (if 1 < length ds then ''.'' @ drop 1 ds else []) @ ''e'' @ str_exponent (decpt - 1)
      else if decpt \<le> 0 then ''0.'' @ replicate (nat (- decpt)) (CHR ''0'') @ ds
      else if ilength ds \<le> decpt then ds @ replicate (nat (decpt - ilength ds)) (CHR ''0'') @ ''.0''
      else take (nat decpt) ds @ ''.'' @ drop (nat decpt) ds)"

definition repr_pos :: "rat \<Rightarrow> string" where
  "repr_pos r =
     (case shortest 16 1 r of
        (d, s) \<Rightarrow> format_digits (strip_zeros (str_nat (nat d))) (ilength (str_nat (nat d)) + s))"

definition float_repr :: "pyfloat \<Rightarrow> string" where
  "float_repr x =
     (case x of
        NaN \<Rightarrow> ''nan''
      | PInf \<Rightarrow> ''inf''
      | NInf \<Rightarrow> ''-inf''
      | NegZero \<Rightarrow> ''-0.0''
      | Fin r \<Rightarrow> if r = 0 then ''0.0'' else if r < 0 then ''-'' @ repr_pos (- r) else repr_pos r)"

section \<open>The geometry extractor\<close>

subsection \<open>Data\<close>

text \<open>
  \<open>self.geometry\<close> is a dictionary of four dictionaries and three lists. A key of an
  inner dictionary is modelled as an optional field: \<open>None\<close> when the key is absent. The
  fields that the source assigns without looking at the value read hold an optional
  value themselves: \<open>Some None\<close> is a key that is present and holds Python's \<open>None\<close>.
\<close>

record config =
  numBlades :: "int option option"
  rotorDiameter :: "pyfloat option"
  hubHeight :: "pyfloat option"

record blade_station =
  spanFraction :: pyfloat
  pitchAxis :: pyfloat
  twist :: pyfloat

record blades =
  blades_length :: "pyfloat option"
  blades_precone :: "pyfloat option option"
  blades_stations :: "blade_station list option"

record tower_station =
  heightFraction :: pyfloat

record tower =
  tower_height :: "pyfloat option"
  tower_baseElevation :: "pyfloat option"
  tower_stations :: "tower_station list option"

record hub =
  hub_radius :: "pyfloat option option"
  hub_overhang :: "pyfloat option option"
  hub_shaftTilt :: "pyfloat option option"

record geometry =
  config :: config
  blades :: blades
  tower :: tower
  hub :: hub
  errors :: "string list"
  warnings :: "string list"
  filesRead :: "string list"

text \<open>The dictionary built by \<open>__init__\<close>.\<close>

definition init_geometry :: geometry where
  "init_geometry =
     \<lparr>config = \<lparr>numBlades = None, rotorDiameter = None, hubHeight = None\<rparr>,
      blades = \<lparr>blades_length = None, blades_precone = None, blades_stations = None\<rparr>,
      tower = \<lparr>tower_height = None, tower_baseElevation = None, tower_stations = None\<rparr>,
      hub = \<lparr>hub_radius = None, hub_overhang = None, hub_shaftTilt = None\<rparr>,
      errors = [], warnings = [], filesRead = []\<rparr>"

subsection \<open>The file store\<close>

text \<open>
  \<open>self.files\<close> is a \<open>dict\<close>, which keeps its keys in insertion order: an association
  list with distinct keys. \<open>add_file\<close> replaces the content of a name that is already
  stored, in place, and appends a new name at the end.
\<close>

type_synonym file_store = "(string \<times> string) list"

definition add_file :: "string \<Rightarrow> string \<Rightarrow> file_store \<Rightarrow> file_store" where
  "add_file filename content files = AList.update filename content files"

definition get_file :: "file_store \<Rightarrow> string \<Rightarrow> string option" where
  "get_file files filepath =
     (case map_of files filepath of
        Some content \<Rightarrow> Some content
      | None \<Rightarrow>
          (case map_of files (basename filepath) of
             Some content \<Rightarrow> Some content
           | None \<Rightarrow>
               (case find (\<lambda>(uploaded_name, content). basename uploaded_name = basename filepath) files of
                  Some (uploaded_name, content) \<Rightarrow> Some content
                | None \<Rightarrow> None)))"

subsection \<open>Reading one value from a line\<close>

text \<open>
  \<open>read_value(line, value_type)\<close>. The body runs inside \<open>try\<close> with a bare \<open>except\<close> that
  returns \<open>None\<close>: every \<open>ValueError\<close> of \<open>int\<close> and \<open>float\<close> is the result \<open>None\<close>. A
  \<open>value_type\<close> other than \<open>float\<close>, \<open>int\<close> and \<open>bool\<close> returns the string.
\<close>

datatype value_type = TStr | TFloat | TInt | TBool

datatype pyval = VStr string | VFloat pyfloat | VInt int | VBool bool

definition is_delim :: "char \<Rightarrow> bool" where
  "is_delim c = (c = CHR ''!'' \<or> c = CHR ''-'')"

definition read_value :: "string \<Rightarrow> value_type \<Rightarrow> pyval option" where
  "read_value line vt =
     (case split_on is_delim (strip line) of
        (part0, others) \<Rightarrow>
          if strip part0 = [] then None
          else (case split_ws (strip part0) of
                  [] \<Rightarrow> None
                | tok # _ \<Rightarrow>
                    (let v = strip_char (CHR 0x27) (strip_char (CHR 0x22) tok)
                     in case vt of
                          TFloat \<Rightarrow> map_option VFloat (py_float v)
                        | TInt \<Rightarrow> map_option VInt (py_int v)
                        | TBool \<Rightarrow> Some (VBool (lower v \<in> set [''true'', ''t'', ''yes'', ''1'']))
                        | TStr \<Rightarrow> Some (VStr v))))"

text \<open>The three uses in the parsers, with the type each of them gets back.\<close>

definition read_float :: "string \<Rightarrow> pyfloat option" where
  "read_float line = (case read_value line TFloat of Some (VFloat x) \<Rightarrow> Some x | _ \<Rightarrow> None)"

definition read_int :: "string \<Rightarrow> int option" where
  "read_int line = (case read_value line TInt of Some (VInt n) \<Rightarrow> Some n | _ \<Rightarrow> None)"

definition read_str :: "string \<Rightarrow> string option" where
  "read_str line = (case read_value line TStr of Some (VStr v) \<Rightarrow> Some v | _ \<Rightarrow> None)"

text \<open>
  \<open>self.get_file(name) if name else None\<close> followed by \<open>if content:\<close>: the content of
  the referenced file when the name read is non-empty, resolves and the content is not
  the empty string.
\<close>

definition resolve_ref :: "file_store \<Rightarrow> string option \<Rightarrow> string option" where
  "resolve_ref files name =
     (case name of
        None \<Rightarrow> None
      | Some n \<Rightarrow>
          if n = [] then None
          else (case get_file files n of
                  None \<Rightarrow> None
                | Some content \<Rightarrow> if content = [] then None else Some content))"

subsection \<open>The table parsers\<close>

text \<open>
  In each parser the body runs inside \<open>try\<close>. No operation of the bodies modelled below
  raises: the only exceptions are the \<open>ValueError\<close>s of \<open>float\<close>, which the inner
  \<open>except ValueError\<close> handles, and \<open>parts[0]\<close>, \<open>parts[1]\<close>, \<open>parts[2]\<close> are read under the
  guard on \<open>len(parts)\<close>. So the loops are total functions and both parsers return \<open>True\<close>.

  \<open>strip_comment\<close> is \<open>if '!' in line: line = line.split('!')[0]\<close>, and \<open>is_row\<close> the
  test \<open>line.strip() and not line.strip().startswith('!') and not
  line.strip().startswith('---')\<close>.
\<close>

definition strip_comment :: "string \<Rightarrow> string" where
  "strip_comment line =
     (if CHR ''!'' \<in> set line then fst (split_on (\<lambda>c. c = CHR ''!'') line) else line)"

definition is_row :: "string \<Rightarrow> bool" where
  "is_row line =
     (strip line \<noteq> [] \<and> \<not> startswith (strip line) ''!'' \<and> \<not> startswith (strip line) ''---'')"

text \<open>The \<open>for\<close> loop of \<open>parse_blade_file\<close>, with its variables \<open>in_table\<close> and \<open>stations\<close>.\<close>

fun blade_loop :: "bool \<Rightarrow> blade_station list \<Rightarrow> string list \<Rightarrow> blade_station list" where
  "blade_loop in_table stations [] = stations"
| "blade_loop in_table stations (line # rest) =
     (if str_in ''BLFRACT'' (upper line) then blade_loop True stations rest
      else if in_table \<and> is_row line then
        (case split_ws (strip_comment line) of
           p0 # p1 # p2 # _ \<Rightarrow>
             (case py_float p0 of
                None \<Rightarrow> blade_loop in_table stations rest
              | Some sf \<Rightarrow>
                  (case py_float p1 of
                     None \<Rightarrow> blade_loop in_table stations rest
                   | Some pa \<Rightarrow>
                       (case py_float p2 of
                          None \<Rightarrow> blade_loop in_table stations rest
                        | Some tw \<Rightarrow>
                            blade_loop in_table
                              (stations @ [\<lparr>spanFraction = sf, pitchAxis = pa, twist = tw\<rparr>]) rest)))
         | _ \<Rightarrow> blade_loop in_table stations rest)
      else blade_loop in_table stations rest)"

definition parse_blade_file :: "string \<Rightarrow> geometry \<Rightarrow> bool \<times> geometry" where
  "parse_blade_file content g =
     (let stations = blade_loop False [] (split_lines content)
      in if stations \<noteq> [] then
           (True, g\<lparr>blades := (blades g)\<lparr>blades_stations := Some stations\<rparr>,
                    filesRead := filesRead g @ [''Blade properties''],
                    warnings := warnings g @
                      [''Parsed '' @ str_nat (length stations) @ '' blade stations'']\<rparr>)
         else (True, g))"

text \<open>
  The \<open>for\<close> loop of \<open>parse_tower_file\<close>. A \<open>break\<close> returns the stations collected so
  far. \<open>break_if\<close> is the \<open>if in_table: break\<close> of the \<open>ValueError\<close> handler.
\<close>

definition break_if :: "bool \<Rightarrow> 'a \<Rightarrow> 'a \<Rightarrow> 'a" where
  "break_if b stop continue = (if b then stop else continue)"

fun tower_loop :: "bool \<Rightarrow> tower_station list \<Rightarrow> string list \<Rightarrow> tower_station list" where
  "tower_loop in_table stations [] = stations"
| "tower_loop in_table stations (line # rest) =
     (if in_table \<and> startswith (strip line) ''---'' then stations
      else if str_in ''HTFRACT'' (upper line) then tower_loop True stations rest
      else if in_table \<and> is_row line then
        (case split_ws (strip_comment line) of
           [] \<Rightarrow> tower_loop in_table stations rest
         | p0 # _ \<Rightarrow>
             (case py_float p0 of
                None \<Rightarrow> break_if in_table stations (tower_loop in_table stations rest)
              | Some height_frac \<Rightarrow>
                  if in_unit_interval height_frac
                  then tower_loop in_table (stations @ [\<lparr>heightFraction = height_frac\<rparr>]) rest
                  else stations))
      else tower_loop in_table stations rest)"

definition parse_tower_file :: "string \<Rightarrow> geometry \<Rightarrow> bool \<times> geometry" where
  "parse_tower_file content g =
     (let stations = tower_loop False [] (split_lines content)
      in if stations \<noteq> [] then
           (True, g\<lparr>tower := (tower g)\<lparr>tower_stations := Some stations\<rparr>,
                    filesRead := filesRead g @ [''Tower properties''],
                    warnings := warnings g @
                      [''Parsed '' @ str_nat (length stations) @ '' tower stations'']\<rparr>)
         else (True, g))"

text \<open>\<open>parse_aerodyn_file\<close> only records the file.\<close>

definition parse_aerodyn_file :: "string \<Rightarrow> geometry \<Rightarrow> bool \<times> geometry" where
  "parse_aerodyn_file content g = (True, g\<lparr>filesRead := filesRead g @ [''AeroDyn'']\<rparr>)"

subsection \<open>The structural file\<close>

text \<open>
  The state of the \<open>while\<close> loop of \<open>parse_elastodyn_file\<close>: its three local variables and
  the geometry. \<open>elastodyn_line\<close> is the body of the loop on the stripped line, the
  \<open>if\<close>/\<open>elif\<close> chain in the order of the source.
\<close>

record ed_state =
  tower_ht :: "pyfloat option"
  twr2shft :: "pyfloat option"
  tower_bs_ht :: "pyfloat option"
  geo :: geometry

definition elastodyn_line :: "file_store \<Rightarrow> string \<Rightarrow> ed_state \<Rightarrow> ed_state" where
  "elastodyn_line files line st =
     (let g = geo st in
      if str_in ''NumBl'' line then
        st\<lparr>geo := g\<lparr>config := (config g)\<lparr>numBlades := Some (read_int line)\<rparr>\<rparr>\<rparr>
      else if str_in ''TipRad'' line then
        (case read_float line of
           None \<Rightarrow> st
         | Some tip_rad \<Rightarrow>
             if float_truthy tip_rad then
               st\<lparr>geo := g\<lparr>config := (config g)\<lparr>rotorDiameter := Some (float_mul tip_rad (Fin 2))\<rparr>,
                             blades := (blades g)\<lparr>blades_length := Some tip_rad\<rparr>\<rparr>\<rparr>
             else st)
      else if str_in ''HubRad'' line then
        st\<lparr>geo := g\<lparr>hub := (hub g)\<lparr>hub_radius := Some (read_float line)\<rparr>\<rparr>\<rparr>
      else if str_in ''PreCone'' line then
        st\<lparr>geo := g\<lparr>blades := (blades g)\<lparr>blades_precone := Some (read_float line)\<rparr>\<rparr>\<rparr>
      else if str_in ''OverHang'' line then
        st\<lparr>geo := g\<lparr>hub := (hub g)\<lparr>hub_overhang := Some (read_float line)\<rparr>\<rparr>\<rparr>
      else if str_in ''ShftTilt'' line then
        st\<lparr>geo := g\<lparr>hub := (hub g)\<lparr>hub_shaftTilt := Some (read_float line)\<rparr>\<rparr>\<rparr>
      else if str_in ''TowerHt'' line \<and> \<not> str_in ''TowerBsHt'' line then
        (case read_float line of
           None \<Rightarrow> st\<lparr>tower_ht := None\<rparr>
         | Some h \<Rightarrow>
             if float_truthy h
             then st\<lparr>tower_ht := Some h, geo := g\<lparr>tower := (tower g)\<lparr>tower_height := Some h\<rparr>\<rparr>\<rparr>
             else st\<lparr>tower_ht := Some h\<rparr>)
      else if str_in ''TowerBsHt'' line then
        (case read_float line of
           None \<Rightarrow> st\<lparr>tower_bs_ht := None\<rparr>
         | Some b \<Rightarrow>
             st\<lparr>tower_bs_ht := Some b,
                geo := g\<lparr>tower := (tower g)\<lparr>tower_baseElevation := Some b\<rparr>\<rparr>\<rparr>)
      else if str_in ''Twr2Shft'' line then
        st\<lparr>twr2shft := read_float line\<rparr>
      else if str_in ''BldFile'' line then
        (case resolve_ref files (read_str line) of
           None \<Rightarrow> st
         | Some blade_content \<Rightarrow> st\<lparr>geo := snd (parse_blade_file blade_content g)\<rparr>)
      else if str_in ''TwrFile'' line then
        (case resolve_ref files (read_str line) of
           None \<Rightarrow> st
         | Some tower_content \<Rightarrow> st\<lparr>geo := snd (parse_tower_file tower_content g)\<rparr>)
      else st)"

fun elastodyn_loop :: "file_store \<Rightarrow> ed_state \<Rightarrow> string list \<Rightarrow> ed_state" where
  "elastodyn_loop files st [] = st"
| "elastodyn_loop files st (l # ls) = elastodyn_loop files (elastodyn_line files (strip l) st) ls"

text \<open>
  The message of the hub height: the f-string writes \<open>twr2shft or 0\<close>, which is the
  \<open>int\<close> \<open>0\<close> when \<open>twr2shft\<close> is \<open>None\<close> or a zero.
\<close>

definition hub_height_message :: "pyfloat \<Rightarrow> pyfloat \<Rightarrow> pyfloat option \<Rightarrow> string" where
  "hub_height_message hub_height th t2s =
     ''Hub height calculated: '' @ float_repr hub_height @ ''m (TowerHt='' @ float_repr th @
     '' + Twr2Shft='' @
     (case t2s of None \<Rightarrow> ''0'' | Some t \<Rightarrow> if float_truthy t then float_repr t else ''0'') @ '')''"

text \<open>
  \<open>parse_elastodyn_file\<close>. Nothing in its body raises (\<open>read_value\<close> catches its own
  exceptions and the table parsers theirs), so the \<open>except\<close> branch, the only place that
  would add to \<open>errors\<close> and return \<open>False\<close>, is never taken.
\<close>

definition parse_elastodyn_file :: "file_store \<Rightarrow> string \<Rightarrow> geometry \<Rightarrow> bool \<times> geometry" where
  "parse_elastodyn_file files content g =
     (let st = elastodyn_loop files
                 \<lparr>tower_ht = None, twr2shft = None, tower_bs_ht = None, geo = g\<rparr>
                 (split_lines content);
          g1 = geo st;
          g2 = (case tower_ht st of
                  None \<Rightarrow> g1
                | Some th \<Rightarrow>
                    (let hub_height = (case twr2shft st of None \<Rightarrow> th | Some t \<Rightarrow> float_add th t)
                     in g1\<lparr>config := (config g1)\<lparr>hubHeight := Some hub_height\<rparr>,
                           warnings := warnings g1 @ [hub_height_message hub_height th (twr2shft st)]\<rparr>))
      in (True, g2\<lparr>filesRead := filesRead g2 @ [''ElastoDyn'']\<rparr>))"

subsection \<open>The main file and the entry point\<close>

text \<open>
  The state of the \<open>for\<close> loop of \<open>parse_main_file\<close>: \<open>found_ed\<close>, \<open>found_aero\<close> and the
  geometry. The keywords are searched in the line as it is, the comment test is made
  on the stripped line.
\<close>

record main_state =
  found_ed :: bool
  found_aero :: bool
  mgeo :: geometry

definition main_line :: "file_store \<Rightarrow> string \<Rightarrow> main_state \<Rightarrow> main_state" where
  "main_line files line st =
     (if strip line = [] \<or> startswith (strip line) ''!'' \<or> startswith (strip line) ''---'' then st
      else if str_in ''EDFile'' line \<or> str_in ''ElastoDyn input file'' line then
        (let ed_file = read_str line in
         case resolve_ref files ed_file of
           Some ed_content \<Rightarrow>
             st\<lparr>found_ed := True, mgeo := snd (parse_elastodyn_file files ed_content (mgeo st))\<rparr>
         | None \<Rightarrow>
             (case ed_file of
                None \<Rightarrow> st
              | Some n \<Rightarrow>
                  if n \<noteq> [] then
                    st\<lparr>mgeo := (mgeo st)\<lparr>warnings := warnings (mgeo st) @
                          [''EDFile '' @ [CHR 0x27] @ n @ [CHR 0x27] @ '' not found'']\<rparr>\<rparr>
                  else st))
      else if str_in ''AeroFile'' line \<or> str_in ''AeroDyn input file'' line then
        (case resolve_ref files (read_str line) of
           Some aero_content \<Rightarrow>
             st\<lparr>found_aero := True, mgeo := snd (parse_aerodyn_file aero_content (mgeo st))\<rparr>
         | None \<Rightarrow> st)
      else st)"

fun main_loop :: "file_store \<Rightarrow> main_state \<Rightarrow> string list \<Rightarrow> main_state" where
  "main_loop files st [] = st"
| "main_loop files st (l # ls) = main_loop files (main_line files l st) ls"

text \<open>
  \<open>parse_main_file\<close>. As in \<open>parse_elastodyn_file\<close>, nothing in the body raises, and the
  \<open>except\<close> branch is never taken.
\<close>

definition parse_main_file :: "file_store \<Rightarrow> string \<Rightarrow> geometry \<Rightarrow> bool \<times> geometry" where
  "parse_main_file files content g =
     (let st = main_loop files \<lparr>found_ed = False, found_aero = False, mgeo = g\<rparr> (split_lines content);
          g1 = mgeo st;
          g2 = (if \<not> found_ed st
                then g1\<lparr>warnings := warnings g1 @
                        [''No ElastoDyn file reference found or file not uploaded'']\<rparr>
                else g1)
      in (True, g2\<lparr>filesRead := filesRead g2 @ [''main.fst'']\<rparr>))"

text \<open>
  The extractor object and \<open>extract_geometry\<close>. The JSON text returned is modelled by
  the value it encodes, \<open>{'success': ..., 'geometry': ...}\<close>; the geometry of the
  extractor after the call is the geometry returned.
\<close>

record extractor =
  geometry :: geometry
  files :: file_store

record extraction =
  success :: bool
  result :: geometry

definition extract_geometry :: "extractor \<Rightarrow> extraction" where
  "extract_geometry ex =
     (let main_file = (case find (\<lambda>(filename, content). endswith filename ''.fst'') (files ex) of
                         None \<Rightarrow> None
                       | Some (filename, content) \<Rightarrow> Some content)
      in case (if main_file = Some [] then None else main_file) of
           None \<Rightarrow>
             \<lparr>success = False,
              result = (geometry ex)\<lparr>errors := errors (geometry ex) @ [''No .fst file found'']\<rparr>\<rparr>
         | Some content \<Rightarrow>
             (case parse_main_file (files ex) content (geometry ex) of
                (ok, g) \<Rightarrow> \<lparr>success = (ok \<and> errors g = []), result = g\<rparr>))"

text \<open>
  \<open>extract_openfast_geometry(files_dict)\<close>: the items of the dictionary, in order, are
  added to a new extractor.
\<close>

definition extract_openfast_geometry :: "(string \<times> string) list \<Rightarrow> extraction" where
  "extract_openfast_geometry files_dict =
     extract_geometry
       \<lparr>geometry = init_geometry,
        files = foldl (\<lambda>fs (filename, content). add_file filename content fs) [] files_dict\<rparr>"

section \<open>Notions used in the statements\<close>

text \<open>
  \<open>truncate line\<close> is the part of a line before its first \<open>!\<close> or \<open>-\<close>, and
  \<open>rstrip_with\<close> removes trailing characters as \<open>strip_with\<close> does on both sides.
\<close>

definition truncate :: "string \<Rightarrow> string" where
  "truncate line = takeWhile (\<lambda>c. \<not> is_delim c) line"

definition rstrip_with :: "(char \<Rightarrow> bool) \<Rightarrow> string \<Rightarrow> string" where
  "rstrip_with P s = rev (dropWhile P (rev s))"

text \<open>
  The keywords of the branches of \<open>elastodyn_line\<close> that come before the two file
  references: a line reaches the \<open>BldFile\<close> and \<open>TwrFile\<close> tests exactly when it
  contains none of them.
\<close>

definition scalar_keywords :: "string list" where
  "scalar_keywords = [''NumBl'', ''TipRad'', ''HubRad'', ''PreCone'', ''OverHang'', ''ShftTilt'',
     ''TowerHt'', ''TowerBsHt'', ''Twr2Shft'']"

text \<open>What \<open>extract_geometry\<close> returns when it finds no main file to parse.\<close>

definition no_main_result :: "geometry \<Rightarrow> extraction" where
  "no_main_result g = \<lparr>success = False, result = g\<lparr>errors := errors g @ [''No .fst file found'']\<rparr>\<rparr>"

text \<open>
  Rows of the two tables. The tokens of a row are those of the line without its
  trailing comment. \<open>tower_row_value\<close> is the first token read as a float; a good tower
  row is a data row whose value lies in \<open>[0, 1]\<close>, a bad one a data row whose first
  token is not a float or lies outside. \<open>blade_line_value\<close> is the station a line of the
  blade table contributes: none for a header, a blank line, a comment, a separator, a
  row of fewer than three tokens or a row one of whose first three tokens is not a
  float.
\<close>

definition tower_header :: "string \<Rightarrow> bool" where
  "tower_header line = str_in ''HTFRACT'' (upper line)"

definition tower_row_value :: "string \<Rightarrow> pyfloat option" where
  "tower_row_value line =
     (case split_ws (strip_comment line) of [] \<Rightarrow> None | p0 # _ \<Rightarrow> py_float p0)"

definition tower_good_row :: "string \<Rightarrow> bool" where
  "tower_good_row line =
     (is_row line \<and> \<not> tower_header line \<and>
      (case tower_row_value line of None \<Rightarrow> False | Some h \<Rightarrow> in_unit_interval h))"

definition tower_bad_row :: "string \<Rightarrow> bool" where
  "tower_bad_row line =
     (is_row line \<and> \<not> tower_header line \<and>
      (case split_ws (strip_comment line) of
         [] \<Rightarrow> False
       | p0 # _ \<Rightarrow> (case py_float p0 of None \<Rightarrow> True | Some h \<Rightarrow> \<not> in_unit_interval h)))"

definition blade_header :: "string \<Rightarrow> bool" where
  "blade_header line = str_in ''BLFRACT'' (upper line)"

definition blade_row_value :: "string \<Rightarrow> blade_station option" where
  "blade_row_value line =
     (case split_ws (strip_comment line) of
        p0 # p1 # p2 # _ \<Rightarrow>
          (case (py_float p0, py_float p1, py_float p2) of
             (Some sf, Some pa, Some tw) \<Rightarrow> Some \<lparr>spanFraction = sf, pitchAxis = pa, twist = tw\<rparr>
           | _ \<Rightarrow> None)
      | _ \<Rightarrow> None)"

definition blade_line_value :: "string \<Rightarrow> blade_station option" where
  "blade_line_value line =
     (if blade_header line \<or> \<not> is_row line then None else blade_row_value line)"

text \<open>
  The branch of the \<open>if\<close>/\<open>elif\<close> chain of \<open>elastodyn_line\<close> that a (stripped) line takes:
  the first keyword test that holds, in the order of the source. \<open>last_line k ls\<close> is
  the last line of \<open>ls\<close> that takes the branch of \<open>k\<close>, and \<open>last_value k ok ls\<close> the value
  read from the last line of that branch whose read succeeds with a value satisfying
  \<open>ok\<close>.
\<close>

datatype keyword =
  NumBl | TipRad | HubRad | PreCone | OverHang | ShftTilt | TowerHt | TowerBsHt | Twr2Shft
  | BldFile | TwrFile

definition keyword_of :: "string \<Rightarrow> keyword option" where
  "keyword_of line =
     (if str_in ''NumBl'' line then Some NumBl
      else if str_in ''TipRad'' line then Some TipRad
      else if str_in ''HubRad'' line then Some HubRad
      else if str_in ''PreCone'' line then Some PreCone
      else if str_in ''OverHang'' line then Some OverHang
      else if str_in ''ShftTilt'' line then Some ShftTilt
      else if str_in ''TowerHt'' line \<and> \<not> str_in ''TowerBsHt'' line then Some TowerHt
      else if str_in ''TowerBsHt'' line then Some TowerBsHt
      else if str_in ''Twr2Shft'' line then Some Twr2Shft
      else if str_in ''BldFile'' line then Some BldFile
      else if str_in ''TwrFile'' line then Some TwrFile
      else None)"

definition last_line :: "keyword \<Rightarrow> string list \<Rightarrow> string option" where
  "last_line k ls = find (\<lambda>l. keyword_of l = Some k) (rev ls)"

definition reads_ok :: "(pyfloat \<Rightarrow> bool) \<Rightarrow> string \<Rightarrow> bool" where
  "reads_ok ok l = (case read_float l of None \<Rightarrow> False | Some v \<Rightarrow> ok v)"

definition last_value :: "keyword \<Rightarrow> (pyfloat \<Rightarrow> bool) \<Rightarrow> string list \<Rightarrow> pyfloat option" where
  "last_value k ok ls =
     (case find (\<lambda>l. keyword_of l = Some k \<and> reads_ok ok l) (rev ls) of
        None \<Rightarrow> None
      | Some l \<Rightarrow> read_float l)"

text \<open>The lines of a structural file as the loop sees them, and an empty loop state.\<close>

definition stripped_lines :: "string \<Rightarrow> string list" where
  "stripped_lines content = map strip (split_lines content)"

definition init_ed_state :: "geometry \<Rightarrow> ed_state" where
  "init_ed_state g = \<lparr>tower_ht = None, twr2shft = None, tower_bs_ht = None, geo = g\<rparr>"

section \<open>Properties\<close>

subsection \<open>Auxiliary facts\<close>

text \<open>Lists.\<close>

lemma find_first:
  assumes "\<forall>x \<in> set xs. \<not> P x" "P y"
  shows "find P (xs @ y # ys) = Some y"
  using assms by (induction xs) auto

lemma find_None_iff2: "(find P xs = None) = (\<forall>x \<in> set xs. \<not> P x)"
  by (induction xs) auto

text \<open>Characters of the pieces of a string.\<close>

lemma fst_split_on: "fst (split_on P s) = takeWhile (\<lambda>c. \<not> P c) s"
  by (induction s) (auto split: prod.splits)

lemma set_strip_with: "set (strip_with P s) \<subseteq> set s"
proof -
  have "set (dropWhile P (rev (dropWhile P s))) \<subseteq> set (rev (dropWhile P s))"
    by (rule set_dropWhileD[THEN subsetI]) 
  also have "\<dots> \<subseteq> set s"
    by (auto dest: set_dropWhileD)
  finally show ?thesis by (simp add: strip_with_def)
qed

lemma set_split_ws_from_Un: "(\<Union>t \<in> set (split_ws_from cur s). set t) \<subseteq> set cur \<union> set s"
  by (induction cur s rule: split_ws_from.induct) auto

lemma set_split_ws_from: "t \<in> set (split_ws_from cur s) \<Longrightarrow> set t \<subseteq> set cur \<union> set s"
  using set_split_ws_from_Un[of cur s] by blast

lemma set_split_ws: "t \<in> set (split_ws s) \<Longrightarrow> set t \<subseteq> set s"
  using set_split_ws_from[of t "[]" s] by (simp add: split_ws_def)

text \<open>Stripping commutes with cutting a line at its first delimiter.\<close>

lemma strip_with_rstrip: "strip_with P s = rstrip_with P (dropWhile P s)"
  by (simp add: strip_with_def rstrip_with_def)

lemma rstrip_Nil [simp]: "rstrip_with P [] = []"
  by (simp add: rstrip_with_def)

lemma rstrip_Nil_iff: "(rstrip_with P xs = []) = (\<forall>x \<in> set xs. P x)"
  by (simp add: rstrip_with_def dropWhile_eq_Nil_conv)

lemma rstrip_Cons:
  "rstrip_with P (x # xs) = (if P x \<and> rstrip_with P xs = [] then [] else x # rstrip_with P xs)"
  by (auto simp: rstrip_with_def dropWhile_append dropWhile_eq_Nil_conv)

lemma rstrip_idem: "rstrip_with P (rstrip_with P xs) = rstrip_with P xs"
  by (induction xs) (auto simp: rstrip_Cons)

lemma takeWhile_dropWhile_swap:
  assumes "\<And>c. P c \<Longrightarrow> Q c"
  shows "takeWhile Q (dropWhile P xs) = dropWhile P (takeWhile Q xs)"
  using assms by (induction xs) auto

lemma dropWhile_rstrip_swap:
  "dropWhile P (rstrip_with P xs) = rstrip_with P (dropWhile P xs)"
proof (induction xs)
  case Nil
  then show ?case by simp
next
  case (Cons x xs)
  show ?case
  proof (cases "P x")
    case True
    show ?thesis
    proof (cases "rstrip_with P xs = []")
      case e: True
      then have "rstrip_with P (dropWhile P xs) = []"
        by (auto simp: rstrip_Nil_iff dest: set_dropWhileD)
      then show ?thesis
        using True e by (simp add: rstrip_Cons)
    next
      case False
      then show ?thesis
        using True Cons by (simp add: rstrip_Cons)
    qed
  next
    case False
    then show ?thesis
      by (simp add: rstrip_Cons)
  qed
qed

lemma rstrip_takeWhile_rstrip:
  assumes "\<And>c. P c \<Longrightarrow> Q c"
  shows "rstrip_with P (takeWhile Q (rstrip_with P xs)) = rstrip_with P (takeWhile Q xs)"
proof (induction xs)
  case Nil
  then show ?case by simp
next
  case (Cons x xs)
  show ?case
  proof (cases "P x \<and> rstrip_with P xs = []")
    case True
    then have "takeWhile Q (x # xs) = x # xs"
      using assms by (auto simp: takeWhile_eq_all_conv rstrip_Nil_iff)
    then show ?thesis
      using True by (simp add: rstrip_Cons)
  next
    case False
    then show ?thesis
      using Cons by (auto simp: rstrip_Cons)
  qed
qed

lemma space_not_delim: "isspace c \<Longrightarrow> \<not> is_delim c"
  by (auto simp: isspace_def is_delim_def)

lemma strip_truncate_strip: "strip (truncate (strip line)) = strip (truncate line)"
proof -
  let ?Q = "\<lambda>c. \<not> is_delim c"
  let ?R = "rstrip_with isspace"
  let ?l = "dropWhile isspace line"
  have sw: "\<And>xs. takeWhile ?Q (dropWhile isspace xs) = dropWhile isspace (takeWhile ?Q xs)"
    by (rule takeWhile_dropWhile_swap) (rule space_not_delim)
  have "strip (truncate (strip line)) = ?R (dropWhile isspace (takeWhile ?Q (?R ?l)))"
    by (simp add: strip_def strip_with_rstrip truncate_def)
  also have "\<dots> = ?R (takeWhile ?Q (dropWhile isspace (?R ?l)))"
    by (simp only: sw)
  also have "\<dots> = ?R (takeWhile ?Q (?R ?l))"
    by (simp add: dropWhile_rstrip_swap)
  also have "\<dots> = ?R (takeWhile ?Q ?l)"
    by (rule rstrip_takeWhile_rstrip) (rule space_not_delim)
  also have "\<dots> = ?R (dropWhile isspace (takeWhile ?Q line))"
    by (simp only: sw)
  finally show ?thesis
    by (simp add: strip_def strip_with_rstrip truncate_def)
qed

lemma truncate_no_delim: "takeWhile (\<lambda>c. \<not> is_delim c) (strip (truncate line)) = strip (truncate line)"
proof -
  have "set (strip (truncate line)) \<subseteq> set (truncate line)"
    by (simp add: strip_def set_strip_with)
  then show ?thesis
    by (auto simp: takeWhile_eq_all_conv truncate_def dest: set_takeWhileD)
qed

lemma strip_idem: "strip (strip s) = strip s"
  by (simp add: strip_def strip_with_rstrip dropWhile_rstrip_swap rstrip_idem)

text \<open>What \<open>read_value\<close> returns depends on the truncated line only.\<close>

lemma read_value_str_chars:
  assumes "read_value line TStr = Some (VStr v)"
  shows "set v \<subseteq> set (truncate (strip line))"
proof -
  let ?p0 = "fst (split_on is_delim (strip line))"
  obtain tok rest where t: "split_ws (strip ?p0) = tok # rest"
    and v: "v = strip_char (CHR 0x27) (strip_char (CHR 0x22) tok)"
    using assms by (auto simp: read_value_def Let_def split: prod.splits if_splits list.splits)
  have "set v \<subseteq> set tok"
    unfolding v strip_char_def using set_strip_with by (meson subset_trans)
  also have "set tok \<subseteq> set (strip ?p0)"
    using t set_split_ws[of tok "strip ?p0"] by simp
  also have "\<dots> \<subseteq> set ?p0"
    by (simp add: strip_def set_strip_with)
  finally show ?thesis by (simp add: fst_split_on truncate_def)
qed

lemma read_str_no_delim:
  assumes "read_str line = Some v"
  shows "\<forall>c \<in> set v. \<not> is_delim c"
proof -
  from assms have "read_value line TStr = Some (VStr v)"
    by (auto simp: read_str_def split: option.splits pyval.splits)
  then have "set v \<subseteq> set (truncate (strip line))"
    by (rule read_value_str_chars)
  moreover have "\<forall>c \<in> set (truncate (strip line)). \<not> is_delim c"
    unfolding truncate_def by (auto dest: set_takeWhileD)
  ultimately show ?thesis by blast
qed

lemma read_value_truncate: "read_value line vt = read_value (truncate line) vt"
proof -
  have "strip (fst (split_on is_delim (strip line))) =
        strip (fst (split_on is_delim (strip (truncate line))))"
    by (simp add: fst_split_on truncate_no_delim strip_idem)
      (metis strip_truncate_strip truncate_def)
  then show ?thesis
    by (simp add: read_value_def case_prod_beta)
qed

text \<open>The table parsers write the stations, the files read and the warnings only.\<close>

lemma parse_blade_file_keeps:
  "config (snd (parse_blade_file c g)) = config g"
  "tower (snd (parse_blade_file c g)) = tower g"
  "hub (snd (parse_blade_file c g)) = hub g"
  "errors (snd (parse_blade_file c g)) = errors g"
  "blades_length (blades (snd (parse_blade_file c g))) = blades_length (blades g)"
  "blades_precone (blades (snd (parse_blade_file c g))) = blades_precone (blades g)"
  by (simp_all add: parse_blade_file_def Let_def)

lemma parse_tower_file_keeps:
  "config (snd (parse_tower_file c g)) = config g"
  "blades (snd (parse_tower_file c g)) = blades g"
  "hub (snd (parse_tower_file c g)) = hub g"
  "errors (snd (parse_tower_file c g)) = errors g"
  "tower_height (tower (snd (parse_tower_file c g))) = tower_height (tower g)"
  "tower_baseElevation (tower (snd (parse_tower_file c g))) = tower_baseElevation (tower g)"
  by (simp_all add: parse_tower_file_def Let_def)

text \<open>No parser adds to \<open>errors\<close>, and the main parser reports success.\<close>

lemma elastodyn_line_errors: "errors (geo (elastodyn_line fs line st)) = errors (geo st)"
  by (simp add: elastodyn_line_def Let_def parse_blade_file_keeps parse_tower_file_keeps
      split: option.splits)

lemma elastodyn_loop_errors: "errors (geo (elastodyn_loop fs st ls)) = errors (geo st)"
  by (induction ls arbitrary: st) (simp_all add: elastodyn_line_errors)

lemma parse_elastodyn_file_errors: "errors (snd (parse_elastodyn_file fs c g)) = errors g"
  by (simp add: parse_elastodyn_file_def Let_def elastodyn_loop_errors split: option.splits)

lemma main_line_errors: "errors (mgeo (main_line fs line st)) = errors (mgeo st)"
  by (simp add: main_line_def Let_def parse_elastodyn_file_errors parse_aerodyn_file_def
      split: option.splits)

lemma main_loop_errors: "errors (mgeo (main_loop fs st ls)) = errors (mgeo st)"
  by (induction ls arbitrary: st) (simp_all add: main_line_errors)

lemma parse_main_file_errors: "errors (snd (parse_main_file fs c g)) = errors g"
  by (simp add: parse_main_file_def Let_def main_loop_errors)

lemma parse_main_file_ok: "fst (parse_main_file fs c g) = True"
  by (simp add: parse_main_file_def Let_def)

lemma extract_success:
  "success (extract_geometry ex) =
     ((case find (\<lambda>(filename, content). endswith filename ''.fst'') (files ex) of
         None \<Rightarrow> False | Some (n, c) \<Rightarrow> c \<noteq> [])
      \<and> errors (geometry ex) = [])"
  by (simp add: extract_geometry_def case_prod_beta parse_main_file_ok parse_main_file_errors
      split: option.splits)

subsection \<open>The entry point\<close>

text \<open>
  Claim C1, as the specification states it: when some stored file name ends with
  \<open>.fst\<close> the main file is parsed, and \<open>success\<close> is the conjunction of the parser's
  result and of \<open>errors\<close> being empty. It fails for a main file whose content is empty:
  \<open>extract_geometry\<close> tests \<open>if not main_file\<close>, which is true for the empty string as
  well as for \<open>None\<close>. The name \<open>model.fst\<close> ends with \<open>.fst\<close>, parsing its content
  would report success with no error, yet the result is the one for a missing main file:
  \<open>success\<close> is false, the error is recorded and nothing was parsed.
\<close>

theorem extract_geometry_empty_main_counterexample:
  "endswith ''model.fst'' ''.fst''
   \<and> fst (parse_main_file [(''model.fst'', [])] [] init_geometry)
   \<and> errors (snd (parse_main_file [(''model.fst'', [])] [] init_geometry)) = []
   \<and> \<not> success (extract_openfast_geometry [(''model.fst'', [])])
   \<and> errors (result (extract_openfast_geometry [(''model.fst'', [])])) = [''No .fst file found'']
   \<and> filesRead (result (extract_openfast_geometry [(''model.fst'', [])])) = []"
  by code_simp

text \<open>
  Claim C1, amended: \<open>extract_geometry\<close> always returns a record of \<open>success\<close> and the
  geometry (it is a total function). If no stored file name ends with \<open>.fst\<close>, or if
  the first stored file whose name ends with \<open>.fst\<close> has empty content, the result is
  \<open>success = False\<close> with the geometry as it was and the error appended: nothing is
  parsed. Otherwise the geometry returned is the one left by \<open>parse_main_file\<close> on the
  content of that first file, and \<open>success\<close> holds exactly when the parser reported
  success and \<open>errors\<close> is empty. The warnings present beforehand never change
  \<open>success\<close>.
\<close>

theorem extract_geometry_outcome:
  "((\<forall>n \<in> fst ` set (files ex). \<not> endswith n ''.fst'') \<longrightarrow>
       extract_geometry ex = no_main_result (geometry ex))
   \<and> (files ex = xs @ (n, c) # ys \<and> (\<forall>k \<in> fst ` set xs. \<not> endswith k ''.fst'') \<and> endswith n ''.fst''
       \<longrightarrow> (c = [] \<longrightarrow> extract_geometry ex = no_main_result (geometry ex))
         \<and> (c \<noteq> [] \<longrightarrow>
              result (extract_geometry ex) = snd (parse_main_file (files ex) c (geometry ex))
              \<and> success (extract_geometry ex) =
                  (fst (parse_main_file (files ex) c (geometry ex))
                   \<and> errors (snd (parse_main_file (files ex) c (geometry ex))) = [])))
   \<and> success (extract_geometry (ex\<lparr>geometry := (geometry ex)\<lparr>warnings := w\<rparr>\<rparr>))
       = success (extract_geometry ex)"
proof -
  let ?P = "\<lambda>(filename, content). endswith filename ''.fst''"
  have a: "(\<forall>n \<in> fst ` set (files ex). \<not> endswith n ''.fst'') \<longrightarrow>
       extract_geometry ex = no_main_result (geometry ex)"
  proof
    assume "\<forall>n \<in> fst ` set (files ex). \<not> endswith n ''.fst''"
    then have "find ?P (files ex) = None"
      by (auto simp: find_None_iff2)
    then show "extract_geometry ex = no_main_result (geometry ex)"
      by (simp add: extract_geometry_def no_main_result_def)
  qed
  have b: "files ex = xs @ (n, c) # ys \<and> (\<forall>k \<in> fst ` set xs. \<not> endswith k ''.fst'') \<and> endswith n ''.fst''
       \<longrightarrow> (c = [] \<longrightarrow> extract_geometry ex = no_main_result (geometry ex))
         \<and> (c \<noteq> [] \<longrightarrow>
              result (extract_geometry ex) = snd (parse_main_file (files ex) c (geometry ex))
              \<and> success (extract_geometry ex) =
                  (fst (parse_main_file (files ex) c (geometry ex))
                   \<and> errors (snd (parse_main_file (files ex) c (geometry ex))) = []))"
  proof (intro impI, elim conjE)
    assume h: "files ex = xs @ (n, c) # ys" "\<forall>k \<in> fst ` set xs. \<not> endswith k ''.fst''"
      "endswith n ''.fst''"
    have "find ?P (xs @ (n, c) # ys) = Some (n, c)"
      using h(2,3) by (intro find_first) auto
    then have f: "find ?P (files ex) = Some (n, c)"
      by (simp only: h(1))
    show "(c = [] \<longrightarrow> extract_geometry ex = no_main_result (geometry ex))
         \<and> (c \<noteq> [] \<longrightarrow>
              result (extract_geometry ex) = snd (parse_main_file (files ex) c (geometry ex))
              \<and> success (extract_geometry ex) =
                  (fst (parse_main_file (files ex) c (geometry ex))
                   \<and> errors (snd (parse_main_file (files ex) c (geometry ex))) = []))"
      by (simp add: extract_geometry_def no_main_result_def f split: prod.splits)
  qed
  have c: "success (extract_geometry (ex\<lparr>geometry := (geometry ex)\<lparr>warnings := w\<rparr>\<rparr>))
       = success (extract_geometry ex)"
    by (simp add: extract_success)
  from a b c show ?thesis by blast
qed

theorem extract_geometry_outcome_witness:
  "\<not> endswith ''notes.txt'' ''.fst''
   \<and> extract_geometry \<lparr>geometry = init_geometry, files = [(''notes.txt'', ''x'')]\<rparr>
       = no_main_result init_geometry
   \<and> endswith ''model.fst'' ''.fst''
   \<and> extract_geometry
        \<lparr>geometry = init_geometry, files = [(''notes.txt'', ''x''), (''model.fst'', [])]\<rparr>
       = no_main_result init_geometry
   \<and> ''! empty model'' \<noteq> []
   \<and> success (extract_geometry
        \<lparr>geometry = init_geometry, files = [(''notes.txt'', ''x''), (''model.fst'', ''! empty model'')]\<rparr>)
   \<and> result (extract_geometry
        \<lparr>geometry = init_geometry, files = [(''notes.txt'', ''x''), (''model.fst'', ''! empty model'')]\<rparr>)
       = init_geometry\<lparr>warnings := [''No ElastoDyn file reference found or file not uploaded''],
           filesRead := [''main.fst'']\<rparr>"
  using extract_geometry_outcome [of "\<lparr>geometry = init_geometry, files = [(''notes.txt'', ''x'')]\<rparr>"
      "[]" "''none''" "[]" "[]" "[]"]
    extract_geometry_outcome [of
      "\<lparr>geometry = init_geometry, files = [(''notes.txt'', ''x''), (''model.fst'', [])]\<rparr>"
      "[(''notes.txt'', ''x'')]" "''model.fst''" "[]" "[]" "[]"]
    extract_geometry_outcome [of
      "\<lparr>geometry = init_geometry, files = [(''notes.txt'', ''x''), (''model.fst'', ''! empty model'')]\<rparr>"
      "[(''notes.txt'', ''x'')]" "''model.fst''" "''! empty model''" "[]" "[]"]
  by code_simp

subsection \<open>The file store\<close>

text \<open>
  Claim C2: \<open>get_file\<close> tries the exact name, then the final path segment of the
  requested name as a stored name, then the final path segment of the requested name
  against the final path segment of every stored name, in the order of the store; the
  first match wins and no match gives \<open>None\<close>. It is a total function: nothing is
  raised. Requesting \<open>data/Blade1.dat\<close> when only \<open>Blade1.dat\<close> is stored finds no exact
  match and returns the content stored under the final segment \<open>Blade1.dat\<close>.
\<close>

theorem get_file_resolution:
  "(map_of fs p = Some c \<longrightarrow> get_file fs p = Some c)
   \<and> (map_of fs p = None \<and> map_of fs (basename p) = Some c \<longrightarrow> get_file fs p = Some c)
   \<and> (map_of fs p = None \<and> map_of fs (basename p) = None \<and> fs = xs @ (n, c) # ys
        \<and> (\<forall>k \<in> fst ` set xs. basename k \<noteq> basename p) \<and> basename n = basename p
        \<longrightarrow> get_file fs p = Some c)
   \<and> (map_of fs p = None \<and> map_of fs (basename p) = None
        \<and> (\<forall>k \<in> fst ` set fs. basename k \<noteq> basename p) \<longrightarrow> get_file fs p = None)
   \<and> map_of [(''Blade1.dat'', content)] ''data/Blade1.dat'' = None
   \<and> basename ''data/Blade1.dat'' = ''Blade1.dat''
   \<and> get_file [(''Blade1.dat'', content)] ''data/Blade1.dat'' = Some content"
proof -
  have a: "map_of fs p = Some c \<longrightarrow> get_file fs p = Some c"
    by (simp add: get_file_def)
  have b: "map_of fs p = None \<and> map_of fs (basename p) = Some c \<longrightarrow> get_file fs p = Some c"
    by (simp add: get_file_def)
  have c: "map_of fs p = None \<and> map_of fs (basename p) = None \<and> fs = xs @ (n, c) # ys
        \<and> (\<forall>k \<in> fst ` set xs. basename k \<noteq> basename p) \<and> basename n = basename p
        \<longrightarrow> get_file fs p = Some c"
  proof (intro impI, elim conjE)
    assume h: "map_of fs p = None" "map_of fs (basename p) = None" "fs = xs @ (n, c) # ys"
      "\<forall>k \<in> fst ` set xs. basename k \<noteq> basename p" "basename n = basename p"
    have "find (\<lambda>(u, v). basename u = basename p) (xs @ (n, c) # ys) = Some (n, c)"
      using h(4,5) by (intro find_first) auto
    then have "find (\<lambda>(u, v). basename u = basename p) fs = Some (n, c)"
      by (simp only: h(3))
    then show "get_file fs p = Some c"
      by (simp add: get_file_def h(1,2))
  qed
  have d: "map_of fs p = None \<and> map_of fs (basename p) = None
        \<and> (\<forall>k \<in> fst ` set fs. basename k \<noteq> basename p) \<longrightarrow> get_file fs p = None"
  proof (intro impI, elim conjE)
    assume h: "map_of fs p = None" "map_of fs (basename p) = None"
      "\<forall>k \<in> fst ` set fs. basename k \<noteq> basename p"
    have "find (\<lambda>(u, v). basename u = basename p) fs = None"
      using h(3) by (auto simp: find_None_iff2)
    then show "get_file fs p = None"
      using h(1,2) by (simp add: get_file_def)
  qed
  have e: "basename ''data/Blade1.dat'' = ''Blade1.dat''"
    by (simp add: basename_def)
  have f: "map_of [(''Blade1.dat'', content)] ''data/Blade1.dat'' = None"
    by simp
  have g: "get_file [(''Blade1.dat'', content)] ''data/Blade1.dat'' = Some content"
    unfolding get_file_def e f by simp
  from a b c d e f g show ?thesis by blast
qed

theorem get_file_resolution_witness:
  "map_of [(''data/Blade1.dat'', ''w''), (''Blade1.dat'', ''z'')] ''data/Blade1.dat'' = Some ''w''
   \<and> get_file [(''data/Blade1.dat'', ''w''), (''Blade1.dat'', ''z'')] ''data/Blade1.dat'' = Some ''w''
   \<and> map_of [(''up/Blade1.dat'', ''x''), (''Blade1.dat'', ''z'')] ''data/Blade1.dat'' = None
   \<and> map_of [(''up/Blade1.dat'', ''x''), (''Blade1.dat'', ''z'')] (basename ''data/Blade1.dat'') = Some ''z''
   \<and> get_file [(''up/Blade1.dat'', ''x''), (''Blade1.dat'', ''z'')] ''data/Blade1.dat'' = Some ''z''
   \<and> map_of [(''Tower.dat'', ''t''), (''up/Blade1.dat'', ''x''), (''in/Blade1.dat'', ''y'')]
         ''data/Blade1.dat'' = None
   \<and> map_of [(''Tower.dat'', ''t''), (''up/Blade1.dat'', ''x''), (''in/Blade1.dat'', ''y'')]
         (basename ''data/Blade1.dat'') = None
   \<and> basename ''Tower.dat'' \<noteq> basename ''data/Blade1.dat''
   \<and> basename ''up/Blade1.dat'' = basename ''data/Blade1.dat''
   \<and> get_file [(''Tower.dat'', ''t''), (''up/Blade1.dat'', ''x''), (''in/Blade1.dat'', ''y'')]
         ''data/Blade1.dat'' = Some ''x''
   \<and> map_of [(''Tower.dat'', ''t'')] ''data/Blade1.dat'' = None
   \<and> map_of [(''Tower.dat'', ''t'')] (basename ''data/Blade1.dat'') = None
   \<and> get_file [(''Tower.dat'', ''t'')] ''data/Blade1.dat'' = None"
  using get_file_resolution [of "[(''data/Blade1.dat'', ''w''), (''Blade1.dat'', ''z'')]"
      "''data/Blade1.dat''" "''w''" "[]" "[]" "[]" "[]"]
    get_file_resolution [of "[(''up/Blade1.dat'', ''x''), (''Blade1.dat'', ''z'')]"
      "''data/Blade1.dat''" "''z''" "[]" "[]" "[]" "[]"]
    get_file_resolution [of "[(''Tower.dat'', ''t''), (''up/Blade1.dat'', ''x''), (''in/Blade1.dat'', ''y'')]"
      "''data/Blade1.dat''" "''x''" "[(''Tower.dat'', ''t'')]" "''up/Blade1.dat''"
      "[(''in/Blade1.dat'', ''y'')]" "[]"]
    get_file_resolution [of "[(''Tower.dat'', ''t'')]" "''data/Blade1.dat''" "[]" "[]" "[]" "[]" "[]"]
  by code_simp

subsection \<open>The tower table\<close>

text \<open>
  The loop of \<open>parse_tower_file\<close> skips the lines before the header, enters the table
  at the header, appends a station for every good row and returns at a bad row.
\<close>

lemma tower_loop_before_header:
  "\<forall>l \<in> set pre. \<not> tower_header l \<Longrightarrow> tower_loop False stations (pre @ ls) = tower_loop False stations ls"
  by (induction pre) (auto simp: tower_header_def)

lemma tower_loop_header:
  "tower_header hdr \<Longrightarrow> tower_loop False stations (hdr # ls) = tower_loop True stations ls"
  by (simp add: tower_header_def)

lemma tower_loop_good:
  "\<forall>l \<in> set good. tower_good_row l \<Longrightarrow>
   tower_loop True stations (good @ ls) =
   tower_loop True (stations @ map (\<lambda>l. \<lparr>heightFraction = the (tower_row_value l)\<rparr>) good) ls"
proof (induction good arbitrary: stations)
  case Nil
  then show ?case by simp
next
  case (Cons l good)
  from Cons.prems have g: "tower_good_row l" and rest: "\<forall>l \<in> set good. tower_good_row l"
    by simp_all
  from g obtain p0 ps h where
    "is_row l" "\<not> str_in ''HTFRACT'' (upper l)" "split_ws (strip_comment l) = p0 # ps"
    "py_float p0 = Some h" "in_unit_interval h" "tower_row_value l = Some h"
    by (auto simp: tower_good_row_def tower_row_value_def tower_header_def
        split: list.splits option.splits)
  then have "tower_loop True stations (l # good @ ls) =
      tower_loop True (stations @ [\<lparr>heightFraction = the (tower_row_value l)\<rparr>]) (good @ ls)"
    by (simp add: is_row_def)
  then show ?case
    using Cons.IH[OF rest] by simp
qed

lemma tower_loop_bad:
  "tower_bad_row bad \<Longrightarrow> tower_loop True stations (bad # rest) = stations"
  by (auto simp: tower_bad_row_def tower_header_def is_row_def break_if_def
      split: list.splits option.splits)

text \<open>
  Claim C3: the tower table parser stops on the first bad row. After the lines before
  the header and the header, good rows followed by a data row whose first token is not
  a float, or is a float outside \<open>[0, 1]\<close>, yield exactly the stations of the good rows,
  in order, whatever follows the bad row; the bad row is not recorded. The table with
  rows \<open>0.0\<close>, \<open>0.5\<close>, \<open>1.5\<close> (and a further row \<open>0.75\<close>) yields the two stations 0.0 and
  0.5 and the warning \<open>Parsed 2 tower stations\<close>.
\<close>

theorem tower_table_stops_at_first_bad_row:
  "((\<forall>l \<in> set pre. \<not> tower_header l) \<and> tower_header hdr
      \<and> (\<forall>l \<in> set good. tower_good_row l) \<and> tower_bad_row bad \<longrightarrow>
      tower_loop False [] (pre @ hdr # good @ bad # rest) =
        map (\<lambda>l. \<lparr>heightFraction = the (tower_row_value l)\<rparr>) good)
   \<and> parse_tower_file
        ''HtFract  TMassDen  TwFAStif  TwSSStif\<newline>0.0\<newline>0.5\<newline>1.5\<newline>0.75'' init_geometry
      = (True, init_geometry\<lparr>tower := (tower init_geometry)\<lparr>tower_stations :=
            Some [\<lparr>heightFraction = Fin 0\<rparr>, \<lparr>heightFraction = Fin (1/2)\<rparr>]\<rparr>,
          filesRead := [''Tower properties''], warnings := [''Parsed 2 tower stations'']\<rparr>)"
proof -
  have a: "(\<forall>l \<in> set pre. \<not> tower_header l) \<and> tower_header hdr
      \<and> (\<forall>l \<in> set good. tower_good_row l) \<and> tower_bad_row bad \<longrightarrow>
      tower_loop False [] (pre @ hdr # good @ bad # rest) =
        map (\<lambda>l. \<lparr>heightFraction = the (tower_row_value l)\<rparr>) good"
  proof (intro impI, elim conjE)
    assume h: "\<forall>l \<in> set pre. \<not> tower_header l" "tower_header hdr"
      "\<forall>l \<in> set good. tower_good_row l" "tower_bad_row bad"
    have "tower_loop False [] (pre @ hdr # good @ bad # rest) =
        tower_loop False [] (hdr # good @ bad # rest)"
      using h(1) by (rule tower_loop_before_header)
    also have "\<dots> = tower_loop True [] (good @ bad # rest)"
      using h(2) by (rule tower_loop_header)
    also have "\<dots> = tower_loop True
        ([] @ map (\<lambda>l. \<lparr>heightFraction = the (tower_row_value l)\<rparr>) good) (bad # rest)"
      using h(3) by (rule tower_loop_good)
    also have "\<dots> = map (\<lambda>l. \<lparr>heightFraction = the (tower_row_value l)\<rparr>) good"
      using tower_loop_bad[OF h(4)] by simp
    finally show "tower_loop False [] (pre @ hdr # good @ bad # rest) =
        map (\<lambda>l. \<lparr>heightFraction = the (tower_row_value l)\<rparr>) good" .
  qed
  have b: "parse_tower_file
        ''HtFract  TMassDen  TwFAStif  TwSSStif\<newline>0.0\<newline>0.5\<newline>1.5\<newline>0.75'' init_geometry
      = (True, init_geometry\<lparr>tower := (tower init_geometry)\<lparr>tower_stations :=
            Some [\<lparr>heightFraction = Fin 0\<rparr>, \<lparr>heightFraction = Fin (1/2)\<rparr>]\<rparr>,
          filesRead := [''Tower properties''], warnings := [''Parsed 2 tower stations'']\<rparr>)"
    by code_simp
  from a b show ?thesis by blast
qed

theorem tower_table_stops_at_first_bad_row_witness:
  "\<not> tower_header ''! tower data'' \<and> tower_header ''HtFract  TMassDen''
   \<and> tower_good_row ''0.0'' \<and> tower_good_row ''0.5'' \<and> tower_bad_row ''1.5''
   \<and> tower_loop False []
        ([''! tower data''] @ ''HtFract  TMassDen'' # [''0.0'', ''0.5''] @ ''1.5'' # [''0.75''])
      = [\<lparr>heightFraction = Fin 0\<rparr>, \<lparr>heightFraction = Fin (1/2)\<rparr>]"
  using tower_table_stops_at_first_bad_row [of "[''! tower data'']" "''HtFract  TMassDen''" "[''0.0'', ''0.5'']"
      "''1.5''" "[''0.75'']"]
  by code_simp

subsection \<open>The blade table\<close>

text \<open>
  Inside the table the loop of \<open>parse_blade_file\<close> never stops: it appends the station
  of every line that has one, in the order of the file.
\<close>

lemma blade_loop_in_table:
  "blade_loop True stations ls = stations @ List.map_filter blade_line_value ls"
proof (induction ls arbitrary: stations)
  case Nil
  then show ?case by (simp add: List.map_filter_simps)
next
  case (Cons l ls)
  then show ?case
    by (simp add: List.map_filter_simps blade_line_value_def blade_row_value_def blade_header_def
        split: list.splits option.splits)
qed

lemma blade_loop_before_header:
  "\<forall>l \<in> set pre. \<not> blade_header l \<Longrightarrow> blade_loop False stations (pre @ ls) = blade_loop False stations ls"
  by (induction pre) (auto simp: blade_header_def)

text \<open>
  Claim C4: the blade table parser skips bad rows and goes on. After the header the
  stations are those of the lines that have one, in file order; a row with fewer than
  three tokens, or one of whose first three tokens is not a float, has none and the loop
  continues with the next line. The table with rows \<open>0.0 0.0 5.0\<close>, \<open>x y z\<close>,
  \<open>1.0 0.0 -2.0\<close> yields exactly the two stations of the first and the third row.
\<close>

theorem blade_table_skips_bad_rows:
  "((\<forall>l \<in> set pre. \<not> blade_header l) \<and> blade_header hdr \<longrightarrow>
      blade_loop False [] (pre @ hdr # ls) = List.map_filter blade_line_value ls)
   \<and> (\<not> blade_header bad \<and>
        (case split_ws (strip_comment bad) of
           p0 # p1 # p2 # _ \<Rightarrow> py_float p0 = None \<or> py_float p1 = None \<or> py_float p2 = None
         | _ \<Rightarrow> True) \<longrightarrow>
        blade_line_value bad = None
        \<and> blade_loop True stations (bad # rest) = blade_loop True stations rest)
   \<and> parse_blade_file
        ''BlFract  PitchAxis  StrcTwst\<newline>0.0 0.0 5.0\<newline>x y z\<newline>1.0 0.0 -2.0'' init_geometry
      = (True, init_geometry\<lparr>blades := (blades init_geometry)\<lparr>blades_stations :=
            Some [\<lparr>spanFraction = Fin 0, pitchAxis = Fin 0, twist = Fin 5\<rparr>,
                  \<lparr>spanFraction = Fin 1, pitchAxis = Fin 0, twist = Fin (- 2)\<rparr>]\<rparr>,
          filesRead := [''Blade properties''], warnings := [''Parsed 2 blade stations'']\<rparr>)"
proof -
  have a: "(\<forall>l \<in> set pre. \<not> blade_header l) \<and> blade_header hdr \<longrightarrow>
      blade_loop False [] (pre @ hdr # ls) = List.map_filter blade_line_value ls"
  proof (intro impI, elim conjE)
    assume h: "\<forall>l \<in> set pre. \<not> blade_header l" "blade_header hdr"
    have "blade_loop False [] (pre @ hdr # ls) = blade_loop False [] (hdr # ls)"
      using h(1) by (rule blade_loop_before_header)
    also have "\<dots> = blade_loop True [] ls"
      using h(2) by (simp add: blade_header_def)
    also have "\<dots> = List.map_filter blade_line_value ls"
      by (simp add: blade_loop_in_table)
    finally show "blade_loop False [] (pre @ hdr # ls) = List.map_filter blade_line_value ls" .
  qed
  have b1: "\<not> blade_header bad \<and>
        (case split_ws (strip_comment bad) of
           p0 # p1 # p2 # _ \<Rightarrow> py_float p0 = None \<or> py_float p1 = None \<or> py_float p2 = None
         | _ \<Rightarrow> True) \<longrightarrow> blade_line_value bad = None"
    by (auto simp: blade_line_value_def blade_row_value_def split: list.splits option.splits)
  have b: "\<not> blade_header bad \<and>
        (case split_ws (strip_comment bad) of
           p0 # p1 # p2 # _ \<Rightarrow> py_float p0 = None \<or> py_float p1 = None \<or> py_float p2 = None
         | _ \<Rightarrow> True) \<longrightarrow>
        blade_line_value bad = None
        \<and> blade_loop True stations (bad # rest) = blade_loop True stations rest"
  proof
    assume "\<not> blade_header bad \<and>
        (case split_ws (strip_comment bad) of
           p0 # p1 # p2 # _ \<Rightarrow> py_float p0 = None \<or> py_float p1 = None \<or> py_float p2 = None
         | _ \<Rightarrow> True)"
    with b1 have v: "blade_line_value bad = None"
      by blast
    have "blade_loop True stations (bad # rest) =
        stations @ List.map_filter blade_line_value (bad # rest)"
      by (rule blade_loop_in_table)
    also have "\<dots> = stations @ List.map_filter blade_line_value rest"
      using v by (simp add: List.map_filter_simps)
    also have "\<dots> = blade_loop True stations rest"
      by (rule blade_loop_in_table[symmetric])
    finally show "blade_line_value bad = None
        \<and> blade_loop True stations (bad # rest) = blade_loop True stations rest"
      using v by simp
  qed
  have c: "parse_blade_file
        ''BlFract  PitchAxis  StrcTwst\<newline>0.0 0.0 5.0\<newline>x y z\<newline>1.0 0.0 -2.0'' init_geometry
      = (True, init_geometry\<lparr>blades := (blades init_geometry)\<lparr>blades_stations :=
            Some [\<lparr>spanFraction = Fin 0, pitchAxis = Fin 0, twist = Fin 5\<rparr>,
                  \<lparr>spanFraction = Fin 1, pitchAxis = Fin 0, twist = Fin (- 2)\<rparr>]\<rparr>,
          filesRead := [''Blade properties''], warnings := [''Parsed 2 blade stations'']\<rparr>)"
    by code_simp
  from a b c show ?thesis by blast
qed

theorem blade_table_skips_bad_rows_witness:
  "\<not> blade_header ''! blade data'' \<and> blade_header ''BlFract  PitchAxis  StrcTwst''
   \<and> blade_loop False [] ([''! blade data''] @ ''BlFract  PitchAxis  StrcTwst'' #
        [''0.0 0.0 5.0'', ''x y z'', ''1.0 0.0'', ''1.0 0.0 -2.0''])
      = [\<lparr>spanFraction = Fin 0, pitchAxis = Fin 0, twist = Fin 5\<rparr>,
         \<lparr>spanFraction = Fin 1, pitchAxis = Fin 0, twist = Fin (- 2)\<rparr>]
   \<and> \<not> blade_header ''x y z'' \<and> blade_line_value ''x y z'' = None
   \<and> blade_loop True [] [''x y z'', ''1.0 0.0 -2.0''] = blade_loop True [] [''1.0 0.0 -2.0'']"
  using blade_table_skips_bad_rows [of "[''! blade data'']" "''BlFract  PitchAxis  StrcTwst''"
      "[''0.0 0.0 5.0'', ''x y z'', ''1.0 0.0'', ''1.0 0.0 -2.0'']" "''x y z''" "[]" "[''1.0 0.0 -2.0'']"]
  by code_simp

subsection \<open>Reading scalar values\<close>

text \<open>
  Claim C5, as the specification states it: reading the line \<open>NumBl 3 ! 3 blades\<close> with
  integer coercion yields 3, and the line \<open>TipRad 50.0 -\<close> sets the rotor diameter to
  100.0. It fails: \<open>read_value\<close> takes the first token of the line, which is the keyword
  here, so the integer read is \<open>None\<close> and the rotor diameter stays absent.
\<close>

theorem read_value_keyword_first_counterexample:
  "read_value ''NumBl 3 ! 3 blades'' TInt = None
   \<and> rotorDiameter (config (snd (parse_elastodyn_file [] ''TipRad 50.0 -'' init_geometry))) = None
   \<and> blades_length (blades (snd (parse_elastodyn_file [] ''TipRad 50.0 -'' init_geometry))) = None"
  by code_simp

text \<open>
  Claim C5, amended: the value comes first on a line, as the docstring of \<open>read_value\<close>
  says (value followed by comment). Reading the line \<open>3 NumBl ! 3 blades\<close> with integer
  coercion yields 3, and the structural parser on the line \<open>50.0 TipRad -\<close> sets the
  rotor diameter to 100.0 and the blade length to 50.0, whatever the file store holds.
\<close>

theorem read_value_value_first:
  "read_value ''3 NumBl ! 3 blades'' TInt = Some (VInt 3)
   \<and> rotorDiameter (config (snd (parse_elastodyn_file fs ''50.0 TipRad -'' init_geometry))) = Some (Fin 100)
   \<and> blades_length (blades (snd (parse_elastodyn_file fs ''50.0 TipRad -'' init_geometry))) = Some (Fin 50)"
  by code_simp

subsection \<open>The hub height\<close>

text \<open>
  Claim C6, as the specification states it: after the lines \<open>TowerHt 80.0\<close> and
  \<open>Twr2Shft 5.0\<close> the hub height is 85.0 and a warning cites both inputs. It fails for
  the same reason as C5: both reads return \<open>None\<close>, no hub height is set and no warning
  is added.
\<close>

theorem hub_height_keyword_first_counterexample:
  "hubHeight (config (snd (parse_elastodyn_file [] ''TowerHt 80.0\<newline>Twr2Shft 5.0'' init_geometry))) = None
   \<and> warnings (snd (parse_elastodyn_file [] ''TowerHt 80.0\<newline>Twr2Shft 5.0'' init_geometry)) = []"
  by code_simp

text \<open>
  Claim C6, amended: with the value first on each line. After \<open>80.0 TowerHt\<close> and
  \<open>5.0 Twr2Shft\<close> the hub height is 85.0 and the warning cites both inputs; after
  \<open>80.0 TowerHt\<close> alone the hub height is 80.0 and the offset in the warning reads \<open>0\<close>.
\<close>

theorem hub_height_value_first:
  "snd (parse_elastodyn_file fs ''80.0 TowerHt\<newline>5.0 Twr2Shft'' init_geometry)
     = init_geometry\<lparr>config := (config init_geometry)\<lparr>hubHeight := Some (Fin 85)\<rparr>,
         tower := (tower init_geometry)\<lparr>tower_height := Some (Fin 80)\<rparr>,
         warnings := [''Hub height calculated: 85.0m (TowerHt=80.0 + Twr2Shft=5.0)''],
         filesRead := [''ElastoDyn'']\<rparr>
   \<and> snd (parse_elastodyn_file fs ''80.0 TowerHt'' init_geometry)
     = init_geometry\<lparr>config := (config init_geometry)\<lparr>hubHeight := Some (Fin 80)\<rparr>,
         tower := (tower init_geometry)\<lparr>tower_height := Some (Fin 80)\<rparr>,
         warnings := [''Hub height calculated: 80.0m (TowerHt=80.0 + Twr2Shft=0)''],
         filesRead := [''ElastoDyn'']\<rparr>"
  by code_simp

subsection \<open>The scalar fields of the structural file\<close>

text \<open>
  The loop of \<open>parse_elastodyn_file\<close> processes the lines in order, so a projection of
  its state that each line either overwrites or leaves alone ends with the value
  written by the last line that overwrites it.
\<close>

lemma elastodyn_loop_snoc:
  "elastodyn_loop fs st (ls @ [l]) = elastodyn_line fs (strip l) (elastodyn_loop fs st ls)"
  by (induction ls arbitrary: st) simp_all

lemma last_write_wins:
  assumes "\<And>l st. proj (elastodyn_line fs l st) = (if P l then w l else proj st)"
  shows "proj (elastodyn_loop fs st ls) =
     (case find P (rev (map strip ls)) of None \<Rightarrow> proj st | Some l \<Rightarrow> w l)"
proof (induction ls rule: rev_induct)
  case Nil
  then show ?case by simp
next
  case (snoc l ls)
  then show ?case
    by (simp add: elastodyn_loop_snoc assms)
qed

lemma line_numBlades:
  "numBlades (config (geo (elastodyn_line fs l st))) =
     (if keyword_of l = Some NumBl then Some (read_int l) else numBlades (config (geo st)))"
  by (simp add: elastodyn_line_def keyword_of_def Let_def parse_blade_file_keeps
      parse_tower_file_keeps split: option.splits)

lemma line_hub_radius:
  "hub_radius (hub (geo (elastodyn_line fs l st))) =
     (if keyword_of l = Some HubRad then Some (read_float l) else hub_radius (hub (geo st)))"
  by (simp add: elastodyn_line_def keyword_of_def Let_def parse_blade_file_keeps
      parse_tower_file_keeps split: option.splits)

lemma line_precone:
  "blades_precone (blades (geo (elastodyn_line fs l st))) =
     (if keyword_of l = Some PreCone then Some (read_float l) else blades_precone (blades (geo st)))"
  by (simp add: elastodyn_line_def keyword_of_def Let_def parse_blade_file_keeps
      parse_tower_file_keeps split: option.splits)

lemma line_overhang:
  "hub_overhang (hub (geo (elastodyn_line fs l st))) =
     (if keyword_of l = Some OverHang then Some (read_float l) else hub_overhang (hub (geo st)))"
  by (simp add: elastodyn_line_def keyword_of_def Let_def parse_blade_file_keeps
      parse_tower_file_keeps split: option.splits)

lemma line_shaftTilt:
  "hub_shaftTilt (hub (geo (elastodyn_line fs l st))) =
     (if keyword_of l = Some ShftTilt then Some (read_float l) else hub_shaftTilt (hub (geo st)))"
  by (simp add: elastodyn_line_def keyword_of_def Let_def parse_blade_file_keeps
      parse_tower_file_keeps split: option.splits)

lemma line_baseElevation:
  "tower_baseElevation (tower (geo (elastodyn_line fs l st))) =
     (if keyword_of l = Some TowerBsHt \<and> reads_ok (\<lambda>v. True) l then read_float l
      else tower_baseElevation (tower (geo st)))"
  by (simp add: elastodyn_line_def keyword_of_def reads_ok_def Let_def parse_blade_file_keeps
      parse_tower_file_keeps split: option.splits)

lemma line_tower_height:
  "tower_height (tower (geo (elastodyn_line fs l st))) =
     (if keyword_of l = Some TowerHt \<and> reads_ok float_truthy l then read_float l
      else tower_height (tower (geo st)))"
  by (simp add: elastodyn_line_def keyword_of_def reads_ok_def Let_def parse_blade_file_keeps
      parse_tower_file_keeps split: option.splits)

lemma line_blades_length:
  "blades_length (blades (geo (elastodyn_line fs l st))) =
     (if keyword_of l = Some TipRad \<and> reads_ok float_truthy l then read_float l
      else blades_length (blades (geo st)))"
  by (simp add: elastodyn_line_def keyword_of_def reads_ok_def Let_def parse_blade_file_keeps
      parse_tower_file_keeps split: option.splits)

lemma line_rotorDiameter:
  "rotorDiameter (config (geo (elastodyn_line fs l st))) =
     (if keyword_of l = Some TipRad \<and> reads_ok float_truthy l
      then map_option (\<lambda>v. float_mul v (Fin 2)) (read_float l)
      else rotorDiameter (config (geo st)))"
  by (simp add: elastodyn_line_def keyword_of_def reads_ok_def Let_def parse_blade_file_keeps
      parse_tower_file_keeps split: option.splits)

lemma line_hubHeight:
  "hubHeight (config (geo (elastodyn_line fs l st))) = hubHeight (config (geo st))"
  by (simp add: elastodyn_line_def keyword_of_def Let_def parse_blade_file_keeps
      parse_tower_file_keeps split: option.splits)

lemma line_tower_ht:
  "tower_ht (elastodyn_line fs l st) =
     (if keyword_of l = Some TowerHt then read_float l else tower_ht st)"
  by (simp add: elastodyn_line_def keyword_of_def Let_def split: option.splits)

lemma line_twr2shft:
  "twr2shft (elastodyn_line fs l st) =
     (if keyword_of l = Some Twr2Shft then read_float l else twr2shft st)"
  by (simp add: elastodyn_line_def keyword_of_def Let_def split: option.splits)

lemma find_Some_holds: "find P xs = Some x \<Longrightarrow> P x"
  by (induction xs) (auto split: if_splits)

lemma init_ed_state_simps:
  "geo (init_ed_state g) = g" "tower_ht (init_ed_state g) = None"
  "twr2shft (init_ed_state g) = None" "tower_bs_ht (init_ed_state g) = None"
  by (simp_all add: init_ed_state_def)

lemma loop_unguarded:
  assumes "\<And>l st. proj (elastodyn_line fs l st) = (if keyword_of l = Some k then Some (rd l) else proj st)"
  shows "proj (elastodyn_loop fs (init_ed_state g) (split_lines content)) =
     (case last_line k (stripped_lines content) of
        None \<Rightarrow> proj (init_ed_state g) | Some l \<Rightarrow> Some (rd l))"
  unfolding last_line_def stripped_lines_def
  by (rule last_write_wins) (rule assms)

lemma loop_guarded:
  assumes "\<And>l st. proj (elastodyn_line fs l st) =
      (if keyword_of l = Some k \<and> reads_ok ok l then f (read_float l) else proj st)"
  shows "proj (elastodyn_loop fs (init_ed_state g) (split_lines content)) =
     (case find (\<lambda>l. keyword_of l = Some k \<and> reads_ok ok l) (rev (stripped_lines content)) of
        None \<Rightarrow> proj (init_ed_state g) | Some l \<Rightarrow> f (read_float l))"
  unfolding stripped_lines_def
  by (rule last_write_wins) (rule assms)

lemma loop_var:
  assumes "\<And>l st. proj (elastodyn_line fs l st) = (if keyword_of l = Some k then read_float l else proj st)"
  shows "proj (elastodyn_loop fs (init_ed_state g) (split_lines content)) =
     (case last_line k (stripped_lines content) of
        None \<Rightarrow> proj (init_ed_state g) | Some l \<Rightarrow> read_float l)"
  unfolding last_line_def stripped_lines_def
  by (rule last_write_wins) (rule assms)

lemma parse_elastodyn_file_loop:
  "parse_elastodyn_file fs content g =
     (let st = elastodyn_loop fs (init_ed_state g) (split_lines content);
          g1 = geo st;
          g2 = (case tower_ht st of
                  None \<Rightarrow> g1
                | Some th \<Rightarrow>
                    (let hub_height = (case twr2shft st of None \<Rightarrow> th | Some t \<Rightarrow> float_add th t)
                     in g1\<lparr>config := (config g1)\<lparr>hubHeight := Some hub_height\<rparr>,
                           warnings := warnings g1 @ [hub_height_message hub_height th (twr2shft st)]\<rparr>))
      in (True, g2\<lparr>filesRead := filesRead g2 @ [''ElastoDyn'']\<rparr>))"
  by (simp add: parse_elastodyn_file_def init_ed_state_def)

lemma final_fields:
  "numBlades (config (snd (parse_elastodyn_file fs content g))) =
     numBlades (config (geo (elastodyn_loop fs (init_ed_state g) (split_lines content))))"
  "rotorDiameter (config (snd (parse_elastodyn_file fs content g))) =
     rotorDiameter (config (geo (elastodyn_loop fs (init_ed_state g) (split_lines content))))"
  "blades (snd (parse_elastodyn_file fs content g)) =
     blades (geo (elastodyn_loop fs (init_ed_state g) (split_lines content)))"
  "tower (snd (parse_elastodyn_file fs content g)) =
     tower (geo (elastodyn_loop fs (init_ed_state g) (split_lines content)))"
  "hub (snd (parse_elastodyn_file fs content g)) =
     hub (geo (elastodyn_loop fs (init_ed_state g) (split_lines content)))"
  by (simp_all add: parse_elastodyn_file_loop Let_def split: option.splits)

lemma final_hubHeight:
  "hubHeight (config (snd (parse_elastodyn_file fs content g))) =
     (case tower_ht (elastodyn_loop fs (init_ed_state g) (split_lines content)) of
        None \<Rightarrow> hubHeight (config (geo (elastodyn_loop fs (init_ed_state g) (split_lines content))))
      | Some th \<Rightarrow>
          Some (case twr2shft (elastodyn_loop fs (init_ed_state g) (split_lines content)) of
                  None \<Rightarrow> th | Some t \<Rightarrow> float_add th t))"
  by (simp add: parse_elastodyn_file_loop Let_def split: option.splits)

lemma loop_hubHeight:
  "hubHeight (config (geo (elastodyn_loop fs st ls))) = hubHeight (config (geo st))"
  by (induction ls arbitrary: st) (simp_all add: line_hubHeight)

text \<open>
  Claim C7, as the specification states it: each optional scalar field is absent or
  holds the last value successfully read for its keyword. It fails where the code
  guards a write by the truth value of the number read: after \<open>50.0 TipRad\<close> and
  \<open>0.0 TipRad\<close>, both read successfully, the blade length is still 50.0 and the rotor
  diameter 100.0, not the last value read. (It also fails for the fields written
  without any guard: after \<open>3 NumBl\<close> and \<open>three NumBl\<close> the blade count is present and
  holds \<open>None\<close>.)
\<close>

theorem scalar_fields_counterexample:
  "read_float ''50.0 TipRad'' = Some (Fin 50) \<and> read_float ''0.0 TipRad'' = Some (Fin 0)
   \<and> blades_length (blades (snd (parse_elastodyn_file [] ''50.0 TipRad\<newline>0.0 TipRad'' init_geometry)))
       = Some (Fin 50)
   \<and> rotorDiameter (config (snd (parse_elastodyn_file [] ''50.0 TipRad\<newline>0.0 TipRad'' init_geometry)))
       = Some (Fin 100)
   \<and> read_int ''3 NumBl'' = Some 3 \<and> read_int ''three NumBl'' = None
   \<and> numBlades (config (snd (parse_elastodyn_file [] ''3 NumBl\<newline>three NumBl'' init_geometry)))
       = Some None"
  by code_simp

text \<open>
  Claim C7, amended. A line belongs to the keyword of the first test of the
  \<open>if\<close>/\<open>elif\<close> chain that it passes. For every structural file and every geometry
  before the scan (all fields absent in a fresh one), after the scan:
  \<^item> \<open>numBlades\<close>, \<open>hub.radius\<close>, \<open>precone\<close>, \<open>hub.overhang\<close> and \<open>hub.shaftTilt\<close> are
    as before when no line belongs to their keyword, and hold the value read from the
    last such line when that read succeeds;
  \<^item> \<open>tower.baseElevation\<close> is as before or holds the last value successfully read
    from a line of its keyword;
  \<^item> \<open>tower.height\<close>, \<open>blades.length\<close> and \<open>rotorDiameter\<close> are as before or hold the
    last non-zero value successfully read from a line of their keyword (twice that
    value for \<open>rotorDiameter\<close>);
  \<^item> \<open>hubHeight\<close> is as before unless the last \<open>TowerHt\<close> line reads a value, and is
    then that value plus the value of the last \<open>Twr2Shft\<close> line, if it reads one.
  Later lines of a keyword overwrite earlier ones.
\<close>

theorem scalar_fields_last_write:
  fixes fs content g
  defines "ls \<equiv> stripped_lines content"
    and "g' \<equiv> snd (parse_elastodyn_file fs content g)"
  shows
  "((case last_line NumBl ls of None \<Rightarrow> True | Some l \<Rightarrow> read_int l \<noteq> None) \<longrightarrow>
      numBlades (config g') =
        (case last_line NumBl ls of None \<Rightarrow> numBlades (config g) | Some l \<Rightarrow> Some (read_int l)))
   \<and> ((case last_line HubRad ls of None \<Rightarrow> True | Some l \<Rightarrow> read_float l \<noteq> None) \<longrightarrow>
      hub_radius (hub g') =
        (case last_line HubRad ls of None \<Rightarrow> hub_radius (hub g) | Some l \<Rightarrow> Some (read_float l)))
   \<and> ((case last_line PreCone ls of None \<Rightarrow> True | Some l \<Rightarrow> read_float l \<noteq> None) \<longrightarrow>
      blades_precone (blades g') =
        (case last_line PreCone ls of None \<Rightarrow> blades_precone (blades g) | Some l \<Rightarrow> Some (read_float l)))
   \<and> ((case last_line OverHang ls of None \<Rightarrow> True | Some l \<Rightarrow> read_float l \<noteq> None) \<longrightarrow>
      hub_overhang (hub g') =
        (case last_line OverHang ls of None \<Rightarrow> hub_overhang (hub g) | Some l \<Rightarrow> Some (read_float l)))
   \<and> ((case last_line ShftTilt ls of None \<Rightarrow> True | Some l \<Rightarrow> read_float l \<noteq> None) \<longrightarrow>
      hub_shaftTilt (hub g') =
        (case last_line ShftTilt ls of None \<Rightarrow> hub_shaftTilt (hub g) | Some l \<Rightarrow> Some (read_float l)))
   \<and> tower_baseElevation (tower g') =
        (case last_value TowerBsHt (\<lambda>v. True) ls of
           None \<Rightarrow> tower_baseElevation (tower g) | Some v \<Rightarrow> Some v)
   \<and> tower_height (tower g') =
        (case last_value TowerHt float_truthy ls of
           None \<Rightarrow> tower_height (tower g) | Some v \<Rightarrow> Some v)
   \<and> blades_length (blades g') =
        (case last_value TipRad float_truthy ls of
           None \<Rightarrow> blades_length (blades g) | Some v \<Rightarrow> Some v)
   \<and> rotorDiameter (config g') =
        (case last_value TipRad float_truthy ls of
           None \<Rightarrow> rotorDiameter (config g) | Some v \<Rightarrow> Some (float_mul v (Fin 2)))
   \<and> hubHeight (config g') =
        (case last_line TowerHt ls of
           None \<Rightarrow> hubHeight (config g)
         | Some l \<Rightarrow>
             (case read_float l of
                None \<Rightarrow> hubHeight (config g)
              | Some th \<Rightarrow>
                  Some (case last_line Twr2Shft ls of
                          None \<Rightarrow> th
                        | Some l2 \<Rightarrow> (case read_float l2 of None \<Rightarrow> th | Some t \<Rightarrow> float_add th t))))"
proof -
  let ?st = "elastodyn_loop fs (init_ed_state g) (split_lines content)"
  have nb: "numBlades (config g') =
      (case last_line NumBl ls of None \<Rightarrow> numBlades (config g) | Some l \<Rightarrow> Some (read_int l))"
    unfolding g'_def ls_def final_fields
    using loop_unguarded[of "\<lambda>st. numBlades (config (geo st))" fs NumBl read_int g content]
    by (simp add: line_numBlades init_ed_state_simps split: option.splits)
  have hr: "hub_radius (hub g') =
      (case last_line HubRad ls of None \<Rightarrow> hub_radius (hub g) | Some l \<Rightarrow> Some (read_float l))"
    unfolding g'_def ls_def final_fields
    using loop_unguarded[of "\<lambda>st. hub_radius (hub (geo st))" fs HubRad read_float g content]
    by (simp add: line_hub_radius init_ed_state_simps split: option.splits)
  have pc: "blades_precone (blades g') =
      (case last_line PreCone ls of None \<Rightarrow> blades_precone (blades g) | Some l \<Rightarrow> Some (read_float l))"
    unfolding g'_def ls_def final_fields
    using loop_unguarded[of "\<lambda>st. blades_precone (blades (geo st))" fs PreCone read_float g content]
    by (simp add: line_precone init_ed_state_simps split: option.splits)
  have oh: "hub_overhang (hub g') =
      (case last_line OverHang ls of None \<Rightarrow> hub_overhang (hub g) | Some l \<Rightarrow> Some (read_float l))"
    unfolding g'_def ls_def final_fields
    using loop_unguarded[of "\<lambda>st. hub_overhang (hub (geo st))" fs OverHang read_float g content]
    by (simp add: line_overhang init_ed_state_simps split: option.splits)
  have sh: "hub_shaftTilt (hub g') =
      (case last_line ShftTilt ls of None \<Rightarrow> hub_shaftTilt (hub g) | Some l \<Rightarrow> Some (read_float l))"
    unfolding g'_def ls_def final_fields
    using loop_unguarded[of "\<lambda>st. hub_shaftTilt (hub (geo st))" fs ShftTilt read_float g content]
    by (simp add: line_shaftTilt init_ed_state_simps split: option.splits)
  have be: "tower_baseElevation (tower g') =
      (case last_value TowerBsHt (\<lambda>v. True) ls of
         None \<Rightarrow> tower_baseElevation (tower g) | Some v \<Rightarrow> Some v)"
    unfolding g'_def ls_def final_fields last_value_def
    using loop_guarded[of "\<lambda>st. tower_baseElevation (tower (geo st))" fs TowerBsHt "\<lambda>v. True"
        "\<lambda>x. x" g content]
    by (auto simp: line_baseElevation init_ed_state_simps reads_ok_def
        split: option.splits dest: find_Some_holds)
  have th: "tower_height (tower g') =
      (case last_value TowerHt float_truthy ls of
         None \<Rightarrow> tower_height (tower g) | Some v \<Rightarrow> Some v)"
    unfolding g'_def ls_def final_fields last_value_def
    using loop_guarded[of "\<lambda>st. tower_height (tower (geo st))" fs TowerHt float_truthy
        "\<lambda>x. x" g content]
    by (auto simp: line_tower_height init_ed_state_simps reads_ok_def
        split: option.splits dest: find_Some_holds)
  have bl: "blades_length (blades g') =
      (case last_value TipRad float_truthy ls of
         None \<Rightarrow> blades_length (blades g) | Some v \<Rightarrow> Some v)"
    unfolding g'_def ls_def final_fields last_value_def
    using loop_guarded[of "\<lambda>st. blades_length (blades (geo st))" fs TipRad float_truthy
        "\<lambda>x. x" g content]
    by (auto simp: line_blades_length init_ed_state_simps reads_ok_def
        split: option.splits dest: find_Some_holds)
  have rd: "rotorDiameter (config g') =
      (case last_value TipRad float_truthy ls of
         None \<Rightarrow> rotorDiameter (config g) | Some v \<Rightarrow> Some (float_mul v (Fin 2)))"
    unfolding g'_def ls_def final_fields last_value_def
    using loop_guarded[of "\<lambda>st. rotorDiameter (config (geo st))" fs TipRad float_truthy
        "map_option (\<lambda>v. float_mul v (Fin 2))" g content]
    by (auto simp: line_rotorDiameter init_ed_state_simps reads_ok_def
        split: option.splits dest: find_Some_holds)
  have tv: "tower_ht ?st = (case last_line TowerHt ls of None \<Rightarrow> None | Some l \<Rightarrow> read_float l)"
    unfolding ls_def
    using loop_var[of tower_ht fs TowerHt g content]
    by (simp add: line_tower_ht init_ed_state_simps split: option.splits)
  have sv: "twr2shft ?st = (case last_line Twr2Shft ls of None \<Rightarrow> None | Some l \<Rightarrow> read_float l)"
    unfolding ls_def
    using loop_var[of twr2shft fs Twr2Shft g content]
    by (simp add: line_twr2shft init_ed_state_simps split: option.splits)
  have hh: "hubHeight (config g') =
        (case last_line TowerHt ls of
           None \<Rightarrow> hubHeight (config g)
         | Some l \<Rightarrow>
             (case read_float l of
                None \<Rightarrow> hubHeight (config g)
              | Some th \<Rightarrow>
                  Some (case last_line Twr2Shft ls of
                          None \<Rightarrow> th
                        | Some l2 \<Rightarrow> (case read_float l2 of None \<Rightarrow> th | Some t \<Rightarrow> float_add th t))))"
    unfolding g'_def final_hubHeight tv sv loop_hubHeight
    by (simp add: init_ed_state_simps split: option.splits)
  from nb hr pc oh sh be th bl rd hh show ?thesis
    by simp
qed

lemma scalar_fields_example_lines:
  "stripped_lines ''3 NumBl\<newline>50.0 TipRad\<newline>0.0 TipRad\<newline>1.5 HubRad\<newline>80.0 TowerHt\<newline>10.0 TowerBsHt\<newline>5.0 Twr2Shft\<newline>2.5 PreCone\<newline>5.0 OverHang\<newline>6.0 ShftTilt''
   = [''3 NumBl'', ''50.0 TipRad'', ''0.0 TipRad'', ''1.5 HubRad'', ''80.0 TowerHt'',
      ''10.0 TowerBsHt'', ''5.0 Twr2Shft'', ''2.5 PreCone'', ''5.0 OverHang'', ''6.0 ShftTilt'']"
  by code_simp

theorem scalar_fields_last_write_witness:
  "(case last_line NumBl [''3 NumBl'', ''50.0 TipRad'', ''0.0 TipRad'', ''1.5 HubRad'', ''80.0 TowerHt'',
      ''10.0 TowerBsHt'', ''5.0 Twr2Shft'', ''2.5 PreCone'', ''5.0 OverHang'', ''6.0 ShftTilt''] of None \<Rightarrow> True | Some l \<Rightarrow> read_int l \<noteq> None)
   \<and> (case last_line HubRad [''3 NumBl'', ''50.0 TipRad'', ''0.0 TipRad'', ''1.5 HubRad'', ''80.0 TowerHt'',
      ''10.0 TowerBsHt'', ''5.0 Twr2Shft'', ''2.5 PreCone'', ''5.0 OverHang'', ''6.0 ShftTilt''] of None \<Rightarrow> True | Some l \<Rightarrow> read_float l \<noteq> None)
   \<and> (case last_line PreCone [''3 NumBl'', ''50.0 TipRad'', ''0.0 TipRad'', ''1.5 HubRad'', ''80.0 TowerHt'',
      ''10.0 TowerBsHt'', ''5.0 Twr2Shft'', ''2.5 PreCone'', ''5.0 OverHang'', ''6.0 ShftTilt''] of None \<Rightarrow> True | Some l \<Rightarrow> read_float l \<noteq> None)
   \<and> (case last_line OverHang [''3 NumBl'', ''50.0 TipRad'', ''0.0 TipRad'', ''1.5 HubRad'', ''80.0 TowerHt'',
      ''10.0 TowerBsHt'', ''5.0 Twr2Shft'', ''2.5 PreCone'', ''5.0 OverHang'', ''6.0 ShftTilt''] of None \<Rightarrow> True | Some l \<Rightarrow> read_float l \<noteq> None)
   \<and> (case last_line ShftTilt [''3 NumBl'', ''50.0 TipRad'', ''0.0 TipRad'', ''1.5 HubRad'', ''80.0 TowerHt'',
      ''10.0 TowerBsHt'', ''5.0 Twr2Shft'', ''2.5 PreCone'', ''5.0 OverHang'', ''6.0 ShftTilt''] of None \<Rightarrow> True | Some l \<Rightarrow> read_float l \<noteq> None)
   \<and> snd (parse_elastodyn_file []
        ''3 NumBl\<newline>50.0 TipRad\<newline>0.0 TipRad\<newline>1.5 HubRad\<newline>80.0 TowerHt\<newline>10.0 TowerBsHt\<newline>5.0 Twr2Shft\<newline>2.5 PreCone\<newline>5.0 OverHang\<newline>6.0 ShftTilt''
        init_geometry)
     = \<lparr>config = \<lparr>numBlades = Some (Some 3), rotorDiameter = Some (Fin 100), hubHeight = Some (Fin 85)\<rparr>,
        blades = \<lparr>blades_length = Some (Fin 50), blades_precone = Some (Some (Fin (5 / 2))), blades_stations = None\<rparr>,
        tower = \<lparr>tower_height = Some (Fin 80), tower_baseElevation = Some (Fin 10), tower_stations = None\<rparr>,
        hub = \<lparr>hub_radius = Some (Some (Fin (3 / 2))), hub_overhang = Some (Some (Fin 5)), hub_shaftTilt = Some (Some (Fin 6))\<rparr>,
        errors = [],
        warnings = [''Hub height calculated: 85.0m (TowerHt=80.0 + Twr2Shft=5.0)''],
        filesRead = [''ElastoDyn'']\<rparr>"
  using scalar_fields_last_write [of
      "''3 NumBl\<newline>50.0 TipRad\<newline>0.0 TipRad\<newline>1.5 HubRad\<newline>80.0 TowerHt\<newline>10.0 TowerBsHt\<newline>5.0 Twr2Shft\<newline>2.5 PreCone\<newline>5.0 OverHang\<newline>6.0 ShftTilt''"
      "[]" init_geometry]
  unfolding scalar_fields_example_lines
  by code_simp

subsection \<open>The aerodynamic file reference\<close>

text \<open>
  Claim C8 states that an aerodynamic file name that is read but does not resolve adds
  a warning naming the file, as for the structural file. The code does not: the
  \<open>AeroFile\<close> branch of \<open>parse_main_file\<close> has no \<open>elif\<close> for the unresolved name, which
  its \<open>EDFile\<close> sibling has. With a main file whose only line is
  \<open>missing.dat AeroFile\<close> no warning names \<open>missing.dat\<close>; with \<open>missing.dat EDFile\<close>
  the warning is there.
\<close>

theorem aero_unresolved_no_warning:
  "warnings (result (extract_openfast_geometry [(''model.fst'', ''missing.dat AeroFile'')]))
     = [''No ElastoDyn file reference found or file not uploaded'']
   \<and> warnings (result (extract_openfast_geometry [(''model.fst'', ''missing.dat EDFile'')]))
     = [''EDFile '' @ [CHR 0x27] @ ''missing.dat'' @ [CHR 0x27] @ '' not found'',
        ''No ElastoDyn file reference found or file not uploaded'']"
  by code_simp

subsection \<open>Tower height and tower base elevation\<close>

text \<open>
  Claim C9: on every line the two tower keywords exclude each other. A line that
  contains \<open>TowerBsHt\<close> leaves \<open>tower.height\<close> and the captured tower height as they
  were; the tower height is written or captured only on a line that contains \<open>TowerHt\<close>
  and does not contain \<open>TowerBsHt\<close>; and the base elevation only on a line that
  contains \<open>TowerBsHt\<close>.
\<close>

theorem tower_keywords_exclusive:
  "(str_in ''TowerBsHt'' line \<longrightarrow>
      tower_height (tower (geo (elastodyn_line fs line st))) = tower_height (tower (geo st))
      \<and> tower_ht (elastodyn_line fs line st) = tower_ht st)
   \<and> (tower_height (tower (geo (elastodyn_line fs line st))) \<noteq> tower_height (tower (geo st))
        \<or> tower_ht (elastodyn_line fs line st) \<noteq> tower_ht st
      \<longrightarrow> str_in ''TowerHt'' line \<and> \<not> str_in ''TowerBsHt'' line)
   \<and> (tower_baseElevation (tower (geo (elastodyn_line fs line st))) \<noteq> tower_baseElevation (tower (geo st))
        \<or> tower_bs_ht (elastodyn_line fs line st) \<noteq> tower_bs_ht st
      \<longrightarrow> str_in ''TowerBsHt'' line)"
  by (simp add: elastodyn_line_def Let_def parse_blade_file_keeps parse_tower_file_keeps
      split: option.splits)

theorem tower_keywords_exclusive_witness:
  "str_in ''TowerBsHt'' ''10.0 TowerBsHt''
   \<and> tower_height (tower (geo (elastodyn_line [] ''10.0 TowerBsHt''
        \<lparr>tower_ht = None, twr2shft = None, tower_bs_ht = None, geo = init_geometry\<rparr>))) = None
   \<and> tower_baseElevation (tower (geo (elastodyn_line [] ''10.0 TowerBsHt''
        \<lparr>tower_ht = None, twr2shft = None, tower_bs_ht = None, geo = init_geometry\<rparr>))) = Some (Fin 10)
   \<and> tower_height (tower (geo (elastodyn_line [] ''80.0 TowerHt''
        \<lparr>tower_ht = None, twr2shft = None, tower_bs_ht = None, geo = init_geometry\<rparr>))) = Some (Fin 80)
   \<and> str_in ''TowerHt'' ''80.0 TowerHt'' \<and> \<not> str_in ''TowerBsHt'' ''80.0 TowerHt''"
  using tower_keywords_exclusive [of "''10.0 TowerBsHt''" "[]"
      "\<lparr>tower_ht = None, twr2shft = None, tower_bs_ht = None, geo = init_geometry\<rparr>"]
    tower_keywords_exclusive [of "''80.0 TowerHt''" "[]"
      "\<lparr>tower_ht = None, twr2shft = None, tower_bs_ht = None, geo = init_geometry\<rparr>"]
  by code_simp

subsection \<open>File names with a dash or an exclamation mark\<close>

text \<open>
  Claim C10, as stated: a referenced file whose name contains \<open>-\<close> or \<open>!\<close> and whose
  truncated name does not resolve is silently never parsed. It fails for the
  \<open>EDFile\<close> reference of the main file, which is not silent: the truncated name \<open>my\<close>
  read from \<open>"my-ed.dat" EDFile\<close> does not resolve, although \<open>my-ed.dat\<close> is stored, and
  a warning naming \<open>my\<close> is added.
\<close>

theorem file_reference_silent_counterexample:
  \<open>read_str ''"my-ed.dat" EDFile'' = Some ''my''
   \<and> warnings (result (extract_openfast_geometry
        [(''model.fst'', ''"my-ed.dat" EDFile''), (''my-ed.dat'', ''3 NumBl'')]))
     = [''EDFile '' @ [CHR 0x27] @ ''my'' @ [CHR 0x27] @ '' not found'',
        ''No ElastoDyn file reference found or file not uploaded'']\<close>
  by code_simp

text \<open>
  Claim C10, amended: what \<open>read_value\<close> returns for a line is what it returns for the
  line cut at its first \<open>-\<close> or \<open>!\<close>, so the string read never contains either
  character and a file name containing one is never read whole. The reference resolves
  only through \<open>get_file\<close> on the string read (non-empty, to a non-empty content). When it
  does not resolve, the referenced file is not parsed: on a \<open>BldFile\<close> or \<open>TwrFile\<close>
  line of the structural file and on an \<open>AeroFile\<close> line of the main file the state is
  left as it was, silently; on an \<open>EDFile\<close> line of the main file a warning naming the
  string read is added when that string is not empty.
\<close>

theorem file_reference_truncated:
  "read_value line vt = read_value (truncate line) vt
   \<and> (read_str line = Some v \<longrightarrow> (\<forall>c \<in> set v. \<not> is_delim c))
   \<and> (resolve_ref fs (Some v) = Some content \<longrightarrow> v \<noteq> [] \<and> content \<noteq> [] \<and> get_file fs v = Some content)
   \<and> ((\<forall>k \<in> set scalar_keywords. \<not> str_in k tline) \<and> resolve_ref fs (read_str tline) = None
        \<longrightarrow> elastodyn_line fs tline st = st)
   \<and> (\<not> (str_in ''EDFile'' aline \<or> str_in ''ElastoDyn input file'' aline) \<and> resolve_ref fs (read_str aline) = None
        \<longrightarrow> main_line fs aline ms = ms)
   \<and> (strip eline \<noteq> [] \<and> \<not> startswith (strip eline) ''!'' \<and> \<not> startswith (strip eline) ''---''
        \<and> (str_in ''EDFile'' eline \<or> str_in ''ElastoDyn input file'' eline)
        \<and> read_str eline = Some n \<and> n \<noteq> [] \<and> resolve_ref fs (Some n) = None
        \<longrightarrow> main_line fs eline ms =
              ms\<lparr>mgeo := (mgeo ms)\<lparr>warnings := warnings (mgeo ms) @
                    [''EDFile '' @ [CHR 0x27] @ n @ [CHR 0x27] @ '' not found'']\<rparr>\<rparr>)"
proof -
  have a: "read_value line vt = read_value (truncate line) vt"
    by (rule read_value_truncate)
  have b: "read_str line = Some v \<longrightarrow> (\<forall>c \<in> set v. \<not> is_delim c)"
    using read_str_no_delim by blast
  have c: "resolve_ref fs (Some v) = Some content \<longrightarrow> v \<noteq> [] \<and> content \<noteq> [] \<and> get_file fs v = Some content"
    by (auto simp: resolve_ref_def split: if_splits option.splits)
  have d: "(\<forall>k \<in> set scalar_keywords. \<not> str_in k tline) \<and> resolve_ref fs (read_str tline) = None
        \<longrightarrow> elastodyn_line fs tline st = st"
    by (simp add: scalar_keywords_def elastodyn_line_def Let_def)
  have e: "\<not> (str_in ''EDFile'' aline \<or> str_in ''ElastoDyn input file'' aline) \<and> resolve_ref fs (read_str aline) = None
        \<longrightarrow> main_line fs aline ms = ms"
    by (simp add: main_line_def Let_def)
  have f: "strip eline \<noteq> [] \<and> \<not> startswith (strip eline) ''!'' \<and> \<not> startswith (strip eline) ''---''
        \<and> (str_in ''EDFile'' eline \<or> str_in ''ElastoDyn input file'' eline)
        \<and> read_str eline = Some n \<and> n \<noteq> [] \<and> resolve_ref fs (Some n) = None
        \<longrightarrow> main_line fs eline ms =
              ms\<lparr>mgeo := (mgeo ms)\<lparr>warnings := warnings (mgeo ms) @
                    [''EDFile '' @ [CHR 0x27] @ n @ [CHR 0x27] @ '' not found'']\<rparr>\<rparr>"
    by (auto simp: main_line_def Let_def)
  from a b c d e f show ?thesis by blast
qed

theorem file_reference_truncated_witness:
  \<open>read_value ''"my-tower.dat" TwrFile'' TStr = read_value (truncate ''"my-tower.dat" TwrFile'') TStr
   \<and> read_str ''"my-tower.dat" TwrFile'' = Some ''my''
   \<and> \<not> is_delim (CHR ''m'') \<and> \<not> is_delim (CHR ''y'')
   \<and> resolve_ref [(''my'', ''x''), (''other-tower.dat'', ''y'')] (Some ''my'') = Some ''x''
   \<and> get_file [(''my'', ''x''), (''other-tower.dat'', ''y'')] ''my'' = Some ''x''
   \<and> \<not> list_ex (\<lambda>k. str_in k ''"other-tower.dat" TwrFile'') scalar_keywords
   \<and> resolve_ref [(''my'', ''x''), (''other-tower.dat'', ''y'')] (read_str ''"other-tower.dat" TwrFile'') = None
   \<and> elastodyn_line [(''my'', ''x''), (''other-tower.dat'', ''y'')] ''"other-tower.dat" TwrFile''
        \<lparr>tower_ht = None, twr2shft = None, tower_bs_ht = None, geo = init_geometry\<rparr>
      = \<lparr>tower_ht = None, twr2shft = None, tower_bs_ht = None, geo = init_geometry\<rparr>
   \<and> \<not> (str_in ''EDFile'' ''"other-aero.dat" AeroFile'' \<or> str_in ''ElastoDyn input file'' ''"other-aero.dat" AeroFile'')
   \<and> resolve_ref [(''my'', ''x''), (''other-tower.dat'', ''y'')] (read_str ''"other-aero.dat" AeroFile'') = None
   \<and> main_line [(''my'', ''x''), (''other-tower.dat'', ''y'')] ''"other-aero.dat" AeroFile''
        \<lparr>found_ed = False, found_aero = False, mgeo = init_geometry\<rparr>
      = \<lparr>found_ed = False, found_aero = False, mgeo = init_geometry\<rparr>
   \<and> read_str ''"other-ed.dat" EDFile'' = Some ''other''
   \<and> resolve_ref [(''my'', ''x''), (''other-tower.dat'', ''y'')] (Some ''other'') = None
   \<and> main_line [(''my'', ''x''), (''other-tower.dat'', ''y'')] ''"other-ed.dat" EDFile''
        \<lparr>found_ed = False, found_aero = False, mgeo = init_geometry\<rparr>
      = \<lparr>found_ed = False, found_aero = False,
         mgeo = init_geometry\<lparr>warnings := [''EDFile '' @ [CHR 0x27] @ ''other'' @ [CHR 0x27] @ '' not found'']\<rparr>\<rparr>\<close>
  using file_reference_truncated [of \<open>''"my-tower.dat" TwrFile''\<close> TStr "''my''"
      "[(''my'', ''x''), (''other-tower.dat'', ''y'')]" "''x''"
      \<open>''"other-tower.dat" TwrFile''\<close>
      "\<lparr>tower_ht = None, twr2shft = None, tower_bs_ht = None, geo = init_geometry\<rparr>"
      \<open>''"other-aero.dat" AeroFile''\<close>
      "\<lparr>found_ed = False, found_aero = False, mgeo = init_geometry\<rparr>"
      \<open>''"other-ed.dat" EDFile''\<close> "''other''"]
  by code_simp


end
